theory Spec2Isabelle
  imports Complex_Main "HOL-Library.AList"
begin

section \<open>JavaScript values used by the services\<close>

text \<open>
  Values of TypeScript type \<open>any\<close> (inventory, stats, economy snapshot) are kept as
  JSON trees. A JavaScript \<open>Map\<close> is an association list in insertion order with
  distinct keys: \<open>get\<close> is \<open>map_of\<close>, \<open>set\<close> is \<open>AList.update\<close> (overwrites in place
  or appends), \<open>delete\<close> is \<open>AList.delete\<close>, \<open>has k\<close> is \<open>map_of m k \<noteq> None\<close> and
  \<open>size\<close> is \<open>length\<close>.

  \<open>Date.now()\<close> and \<open>Math.random()\<close> are inputs of the model: every operation takes the
  clock reading \<open>now\<close> (one reading per call) and the random values it draws.
\<close>

datatype json = JNull | JBool bool | JNum int | JStr string
  | JArr "json list" | JObj "(string \<times> json) list"

definition decimalDigits :: string where
  "decimalDigits = ''0123456789''"

fun showNat :: "nat \<Rightarrow> string" where
  "showNat n = (if n < 10 then [decimalDigits ! n]
                else showNat (n div 10) @ [decimalDigits ! (n mod 10)])"

declare showNat.simps [simp del]

definition showInt :: "int \<Rightarrow> string" where
  "showInt i = (if i < 0 then CHR ''-'' # showNat (nat (- i)) else showNat (nat i))"

text \<open>\<open>String.prototype.charAt\<close>: the empty string outside the range.\<close>

definition charAt :: "string \<Rightarrow> nat \<Rightarrow> string" where
  "charAt s i = (if i < length s then [s ! i] else [])"

text \<open>\<open>Array.prototype.findIndex\<close>: the first index whose element satisfies the test.\<close>

fun findIndex :: "('a \<Rightarrow> bool) \<Rightarrow> 'a list \<Rightarrow> nat option" where
  "findIndex P [] = None"
| "findIndex P (x # xs) = (if P x then Some 0 else map_option Suc (findIndex P xs))"

section \<open>MultiplayerService: the session registry\<close>

record position =
  pos_x :: rat
  pos_y :: rat
  pos_z :: rat

record SessionPlayer =
  player_id :: string
  socketId :: string
  player_name :: string
  joinedAt :: int
  lastSeen :: int
  position :: "position option"
  level :: int
  isHost :: bool
  inventory :: "json list option"
  stats :: "json option"

record GameSessionState =
  worldTime :: int
  gs_season :: string
  harvestedResources :: "string list"
  defeatedEnemies :: "string list"
  sharedInventory :: "json list"
  gs_economyState :: json

record GameSession =
  session_id :: string
  hostCode :: string
  hostId :: string
  hostName :: string
  players :: "SessionPlayer list"
  maxPlayers :: nat
  isPublic :: bool
  createdAt :: int
  lastActivity :: int
  worldSeed :: int
  gameState :: GameSessionState

text \<open>The three private maps of the class.\<close>

record registry =
  sessions :: "(string \<times> GameSession) list"
  playerSessions :: "(string \<times> string) list"
  hostCodes :: "(string \<times> string) list"

definition SESSION_TIMEOUT :: int where
  "SESSION_TIMEOUT = 30 * 60 * 1000"

definition MAX_SESSIONS :: nat where
  "MAX_SESSIONS = 50"

definition MAX_PLAYERS_PER_SESSION :: nat where
  "MAX_PLAYERS_PER_SESSION = 8"

definition newRegistry :: registry where
  "newRegistry = \<lparr>sessions = [], playerSessions = [], hostCodes = []\<rparr>"

subsection \<open>Identifier generation\<close>

text \<open>
  \<open>generateSessionId\<close>: \<open>sidRnd\<close> is the value of
  \<open>Math.random().toString(36).substr(2, 9)\<close>.
\<close>

definition generateSessionId :: "int \<Rightarrow> string \<Rightarrow> string" where
  "generateSessionId now sidRnd = ''session_'' @ showInt now @ ''_'' @ sidRnd"

definition chars :: string where
  "chars = ''ABCDEFGHIJKLMNOPQRSTUVWXYZ0123456789''"

text \<open>
  \<open>generateHostCode\<close>: \<open>draws\<close> is the sequence of values of
  \<open>Math.floor(Math.random() * chars.length)\<close>, six per attempt. The source retries
  until the code is unused; the model returns \<open>None\<close> when the draws run out first.
\<close>

definition hostCodeOf :: "nat list \<Rightarrow> string" where
  "hostCodeOf ds = foldl (\<lambda>code d. code @ charAt chars d) [] ds"

fun generateHostCode :: "(string \<times> string) list \<Rightarrow> nat list \<Rightarrow> string option" where
  "generateHostCode codes draws =
     (if length draws < 6 then None
      else let code = hostCodeOf (take 6 draws) in
        if map_of codes code \<noteq> None then generateHostCode codes (drop 6 draws)
        else Some code)"

declare generateHostCode.simps [simp del]

subsection \<open>Session management\<close>

text \<open>
  \<open>createSession\<close> returns \<open>None\<close> only when the host-code draws run out; otherwise the
  value returned by the source (\<open>null\<close> is \<open>None\<close>) and the registry afterwards.
\<close>

definition createSession ::
  "registry \<Rightarrow> string \<Rightarrow> string \<Rightarrow> int \<Rightarrow> string \<Rightarrow> nat list \<Rightarrow> int
     \<Rightarrow> (GameSession option \<times> registry) option" where
  "createSession st hostSocketId hostName' now sidRnd draws seed =
     (if length (sessions st) \<ge> MAX_SESSIONS then Some (None, st)
      else
        let sessionId = generateSessionId now sidRnd in
        case generateHostCode (hostCodes st) draws of
          None \<Rightarrow> None
        | Some hostCode' \<Rightarrow>
            let gameState' = \<lparr>worldTime = 0, gs_season = ''spring'', harvestedResources = [],
                  defeatedEnemies = [], sharedInventory = [], gs_economyState = JObj []\<rparr>;
                hostPlayer = \<lparr>player_id = ''player_'' @ showInt now, socketId = hostSocketId,
                  player_name = hostName', joinedAt = now, lastSeen = now, position = None,
                  level = 1, isHost = True, inventory = None, stats = None\<rparr>;
                session = \<lparr>session_id = sessionId, hostCode = hostCode', hostId = hostSocketId,
                  hostName = hostName', players = [hostPlayer],
                  maxPlayers = MAX_PLAYERS_PER_SESSION, isPublic = False, createdAt = now,
                  lastActivity = now, worldSeed = seed, gameState = gameState'\<rparr>
            in Some (Some session,
                 st\<lparr>sessions := AList.update sessionId session (sessions st),
                    playerSessions := AList.update hostSocketId sessionId (playerSessions st),
                    hostCodes := AList.update hostCode' sessionId (hostCodes st)\<rparr>))"

datatype join_result = Joined GameSession | JoinError string

text \<open>
  \<open>joinSession\<close>: \<open>idRnd\<close> is \<open>Math.random().toString(36).substr(2, 5)\<close>. The test
  \<open>!sessionId\<close> also holds for the empty string.
\<close>

definition joinSession ::
  "registry \<Rightarrow> string \<Rightarrow> string \<Rightarrow> string \<Rightarrow> int \<Rightarrow> string \<Rightarrow> join_result \<times> registry" where
  "joinSession st sock code playerName now idRnd =
     (case map_of (hostCodes st) code of
        None \<Rightarrow> (JoinError ''Invalid session code'', st)
      | Some sessionId \<Rightarrow>
          if sessionId = [] then (JoinError ''Invalid session code'', st)
          else (case map_of (sessions st) sessionId of
            None \<Rightarrow> (JoinError ''Session not found'', st)
          | Some session \<Rightarrow>
              if length (players session) \<ge> maxPlayers session
              then (JoinError ''Session is full'', st)
              else if map_of (playerSessions st) sock \<noteq> None
              then (JoinError ''Player already in a session'', st)
              else
                let player = \<lparr>player_id = ''player_'' @ showInt now @ ''_'' @ idRnd,
                      socketId = sock, player_name = playerName, joinedAt = now,
                      lastSeen = now, position = None, level = 1, isHost = False,
                      inventory = None, stats = None\<rparr>;
                    session' = session\<lparr>players := players session @ [player],
                      lastActivity := now\<rparr>
                in (Joined session',
                    st\<lparr>sessions := AList.update sessionId session' (sessions st),
                       playerSessions := AList.update sock sessionId (playerSessions st)\<rparr>)))"

definition deleteSession :: "registry \<Rightarrow> string \<Rightarrow> bool \<times> registry" where
  "deleteSession st sessionId =
     (case map_of (sessions st) sessionId of
        None \<Rightarrow> (False, st)
      | Some session \<Rightarrow>
          (True,
           st\<lparr>playerSessions :=
                 foldl (\<lambda>m p. AList.delete (socketId p) m) (playerSessions st) (players session),
              hostCodes := AList.delete (hostCode session) (hostCodes st),
              sessions := AList.delete sessionId (sessions st)\<rparr>))"

definition removePlayerFromSession :: "registry \<Rightarrow> string \<Rightarrow> int \<Rightarrow> bool \<times> registry" where
  "removePlayerFromSession st sock now =
     (case map_of (playerSessions st) sock of
        None \<Rightarrow> (False, st)
      | Some sessionId \<Rightarrow>
          if sessionId = [] then (False, st)
          else (case map_of (sessions st) sessionId of
            None \<Rightarrow> (False, st)
          | Some session \<Rightarrow>
              (case findIndex (\<lambda>p. socketId p = sock) (players session) of
                 None \<Rightarrow> (False, st)
               | Some playerIndex \<Rightarrow>
                   let removedPlayer = players session ! playerIndex;
                       session1 = session\<lparr>players := take playerIndex (players session)
                                     @ drop (Suc playerIndex) (players session),
                                   lastActivity := now\<rparr>;
                       st1 = st\<lparr>sessions := AList.update sessionId session1 (sessions st),
                                playerSessions := AList.delete sock (playerSessions st)\<rparr>
                   in if isHost removedPlayer then
                        (case players session1 of
                           [] \<Rightarrow> (True, snd (deleteSession st1 sessionId))
                         | p0 # rest \<Rightarrow>
                             let session2 = session1\<lparr>players := p0\<lparr>isHost := True\<rparr> # rest,
                                   hostId := socketId p0, hostName := player_name p0\<rparr>
                             in (True, st1\<lparr>sessions :=
                                    AList.update sessionId session2 (sessions st1)\<rparr>))
                      else (True, st1))))"

subsection \<open>Player management\<close>

text \<open>
  The four \<open>updatePlayer...\<close> methods share one body: resolve the session of the
  socket, \<open>find\<close> the first player with that socket id, and assign fields of the player
  and of the session. \<open>modifyPlayer\<close> is that body; \<open>f\<close> and \<open>g\<close> are the assignments.
\<close>

definition modifyPlayer ::
  "registry \<Rightarrow> string \<Rightarrow> (SessionPlayer \<Rightarrow> SessionPlayer) \<Rightarrow> (GameSession \<Rightarrow> GameSession)
     \<Rightarrow> registry" where
  "modifyPlayer st sock f g =
     (case map_of (playerSessions st) sock of
        None \<Rightarrow> st
      | Some sessionId \<Rightarrow>
          if sessionId = [] then st
          else (case map_of (sessions st) sessionId of
            None \<Rightarrow> st
          | Some session \<Rightarrow>
              (case findIndex (\<lambda>p. socketId p = sock) (players session) of
                 None \<Rightarrow> st
               | Some i \<Rightarrow>
                   st\<lparr>sessions := AList.update sessionId
                        (g (session\<lparr>players := (players session)[i := f (players session ! i)]\<rparr>))
                        (sessions st)\<rparr>)))"

definition updatePlayerActivity :: "registry \<Rightarrow> string \<Rightarrow> int \<Rightarrow> registry" where
  "updatePlayerActivity st sock now =
     modifyPlayer st sock (\<lambda>p. p\<lparr>lastSeen := now\<rparr>) (\<lambda>s. s\<lparr>lastActivity := now\<rparr>)"

definition updatePlayerPosition :: "registry \<Rightarrow> string \<Rightarrow> position \<Rightarrow> int \<Rightarrow> registry" where
  "updatePlayerPosition st sock pos now =
     modifyPlayer st sock (\<lambda>p. p\<lparr>position := Some pos, lastSeen := now\<rparr>)
       (\<lambda>s. s\<lparr>lastActivity := now\<rparr>)"

definition updatePlayerInventory :: "registry \<Rightarrow> string \<Rightarrow> json list \<Rightarrow> int \<Rightarrow> registry" where
  "updatePlayerInventory st sock items now =
     modifyPlayer st sock (\<lambda>p. p\<lparr>inventory := Some items, lastSeen := now\<rparr>) (\<lambda>s. s)"

definition updatePlayerStats :: "registry \<Rightarrow> string \<Rightarrow> json \<Rightarrow> int \<Rightarrow> registry" where
  "updatePlayerStats st sock sts now =
     modifyPlayer st sock (\<lambda>p. p\<lparr>stats := Some sts, lastSeen := now\<rparr>) (\<lambda>s. s)"

subsection \<open>Session queries and cleanup\<close>

definition getPlayerSession :: "registry \<Rightarrow> string \<Rightarrow> GameSession option" where
  "getPlayerSession st sock =
     (case map_of (playerSessions st) sock of
        None \<Rightarrow> None
      | Some sessionId \<Rightarrow> if sessionId = [] then None else map_of (sessions st) sessionId)"

definition cleanupInactiveSessions :: "registry \<Rightarrow> int \<Rightarrow> registry" where
  "cleanupInactiveSessions st now =
     (let inactiveSessions =
            map fst (filter (\<lambda>(sessionId, session). now - lastActivity session > SESSION_TIMEOUT)
                       (sessions st))
      in foldl (\<lambda>st' sessionId. snd (deleteSession st' sessionId)) st inactiveSessions)"

subsection \<open>Game state management\<close>

text \<open>\<open>Partial<GameSessionState>\<close>: a field that is absent is \<open>None\<close>.\<close>

record GameSessionStateUpdate =
  upd_worldTime :: "int option"
  upd_season :: "string option"
  upd_harvestedResources :: "string list option"
  upd_defeatedEnemies :: "string list option"
  upd_sharedInventory :: "json list option"
  upd_economyState :: "json option"

definition mergeGameState :: "GameSessionState \<Rightarrow> GameSessionStateUpdate \<Rightarrow> GameSessionState" where
  "mergeGameState g u =
     \<lparr>worldTime = (case upd_worldTime u of None \<Rightarrow> worldTime g | Some v \<Rightarrow> v),
      gs_season = (case upd_season u of None \<Rightarrow> gs_season g | Some v \<Rightarrow> v),
      harvestedResources =
        (case upd_harvestedResources u of None \<Rightarrow> harvestedResources g | Some v \<Rightarrow> v),
      defeatedEnemies = (case upd_defeatedEnemies u of None \<Rightarrow> defeatedEnemies g | Some v \<Rightarrow> v),
      sharedInventory = (case upd_sharedInventory u of None \<Rightarrow> sharedInventory g | Some v \<Rightarrow> v),
      gs_economyState = (case upd_economyState u of None \<Rightarrow> gs_economyState g | Some v \<Rightarrow> v)\<rparr>"

definition updateGameState ::
  "registry \<Rightarrow> string \<Rightarrow> GameSessionStateUpdate \<Rightarrow> int \<Rightarrow> bool \<times> registry" where
  "updateGameState st sessionId stateUpdate now =
     (case map_of (sessions st) sessionId of
        None \<Rightarrow> (False, st)
      | Some session \<Rightarrow>
          (True, st\<lparr>sessions := AList.update sessionId
             (session\<lparr>gameState := mergeGameState (gameState session) stateUpdate,
                      lastActivity := now\<rparr>) (sessions st)\<rparr>))"

definition addHarvestedResource :: "registry \<Rightarrow> string \<Rightarrow> string \<Rightarrow> int \<Rightarrow> bool \<times> registry" where
  "addHarvestedResource st sessionId resourceId now =
     (case map_of (sessions st) sessionId of
        None \<Rightarrow> (False, st)
      | Some session \<Rightarrow>
          if resourceId \<notin> set (harvestedResources (gameState session))
          then (True, st\<lparr>sessions := AList.update sessionId
                  (session\<lparr>gameState := (gameState session)
                       \<lparr>harvestedResources :=
                          harvestedResources (gameState session) @ [resourceId]\<rparr>,
                     lastActivity := now\<rparr>) (sessions st)\<rparr>)
          else (True, st))"

definition addDefeatedEnemy :: "registry \<Rightarrow> string \<Rightarrow> string \<Rightarrow> int \<Rightarrow> bool \<times> registry" where
  "addDefeatedEnemy st sessionId enemyId now =
     (case map_of (sessions st) sessionId of
        None \<Rightarrow> (False, st)
      | Some session \<Rightarrow>
          if enemyId \<notin> set (defeatedEnemies (gameState session))
          then (True, st\<lparr>sessions := AList.update sessionId
                  (session\<lparr>gameState := (gameState session)
                       \<lparr>defeatedEnemies := defeatedEnemies (gameState session) @ [enemyId]\<rparr>,
                     lastActivity := now\<rparr>) (sessions st)\<rparr>)
          else (True, st))"

subsection \<open>Reachable registries\<close>

text \<open>
  The registry starts empty and changes only through the public methods of the class.
  \<open>generateSessionId\<close> has no collision check: the rule for \<open>createSession\<close> takes the
  generated session id to be unused, which is what its timestamp and nine random
  characters are there for.
\<close>

inductive reachable :: "registry \<Rightarrow> bool" where
  r_init: "reachable newRegistry"
| r_create: "reachable st \<Longrightarrow> map_of (sessions st) (generateSessionId now sidRnd) = None
     \<Longrightarrow> createSession st sock nm now sidRnd draws seed = Some (res, st') \<Longrightarrow> reachable st'"
| r_join: "reachable st \<Longrightarrow> joinSession st sock code nm now idRnd = (jres, st')
     \<Longrightarrow> reachable st'"
| r_remove: "reachable st \<Longrightarrow> removePlayerFromSession st sock now = (b, st')
     \<Longrightarrow> reachable st'"
| r_delete: "reachable st \<Longrightarrow> deleteSession st sessionId = (b, st') \<Longrightarrow> reachable st'"
| r_activity: "reachable st \<Longrightarrow> reachable (updatePlayerActivity st sock now)"
| r_position: "reachable st \<Longrightarrow> reachable (updatePlayerPosition st sock pos now)"
| r_inventory: "reachable st \<Longrightarrow> reachable (updatePlayerInventory st sock items now)"
| r_stats: "reachable st \<Longrightarrow> reachable (updatePlayerStats st sock sts now)"
| r_cleanup: "reachable st \<Longrightarrow> reachable (cleanupInactiveSessions st now)"
| r_gameState: "reachable st \<Longrightarrow> updateGameState st sessionId upd now = (b, st')
     \<Longrightarrow> reachable st'"
| r_harvested: "reachable st \<Longrightarrow> addHarvestedResource st sessionId resourceId now = (b, st')
     \<Longrightarrow> reachable st'"
| r_defeated: "reachable st \<Longrightarrow> addDefeatedEnemy st sessionId enemyId now = (b, st')
     \<Longrightarrow> reachable st'"

text \<open>The invariant of the registry.\<close>

definition hostCount :: "GameSession \<Rightarrow> nat" where
  "hostCount s = length (filter isHost (players s))"

definition session_ok :: "GameSession \<Rightarrow> bool" where
  "session_ok s \<longleftrightarrow> players s \<noteq> [] \<and> hostCount s = 1
     \<and> maxPlayers s = 8 \<and> length (players s) \<le> 8"

definition registry_inv :: "registry \<Rightarrow> bool" where
  "registry_inv st \<longleftrightarrow>
     distinct (map fst (sessions st)) \<and> distinct (map fst (playerSessions st))
   \<and> distinct (map fst (hostCodes st))
   \<and> (\<forall>sid s. map_of (sessions st) sid = Some s \<longrightarrow> session_ok s)
   \<and> (\<forall>c sid. map_of (playerSessions st) c = Some sid \<longrightarrow>
         sid \<noteq> [] \<and> (\<exists>s. map_of (sessions st) sid = Some s \<and> c \<in> socketId ` set (players s)))
   \<and> (\<forall>code sid. map_of (hostCodes st) code = Some sid \<longrightarrow>
         sid \<noteq> [] \<and> set code \<subseteq> set chars
         \<and> (\<exists>s. map_of (sessions st) sid = Some s \<and> hostCode s = code))"

section \<open>GameWorldService: the shared world of a session\<close>

text \<open>
  Counts and millisecond clocks are integers; respawn times and prices, which the source
  multiplies by fractional factors, are rationals (exact arithmetic stands for the
  source's doubles). A division can leave the finite numbers, so a scheduled time is a
  \<open>jsnum\<close>: \<open>x / 0\<close> is an infinity, or \<open>NaN\<close> for \<open>0 / 0\<close>.
\<close>

datatype jsnum = Num rat | PosInfinity | NegInfinity | NaN

definition jsDivide :: "rat \<Rightarrow> rat \<Rightarrow> jsnum" where
  "jsDivide a b =
     (if b \<noteq> 0 then Num (a / b)
      else if a > 0 then PosInfinity else if a < 0 then NegInfinity else NaN)"

fun jsPlus :: "rat \<Rightarrow> jsnum \<Rightarrow> jsnum" where
  "jsPlus a (Num b) = Num (a + b)"
| "jsPlus a PosInfinity = PosInfinity"
| "jsPlus a NegInfinity = NegInfinity"
| "jsPlus a NaN = NaN"


datatype season = spring | summer | autumn | winter

datatype weather = clear | rain | storm | snow | fog

record WorldResource =
  res_id :: string
  res_type :: string
  res_position :: position
  remainingUses :: int
  maxUses :: int
  respawnTime :: rat
  lastHarvestedTime :: int
  harvestedBy :: "string option"
  res_chunkId :: string
  isRespawning :: bool

record LootDrop =
  itemId :: string
  quantity :: int
  dropChance :: rat
  rarity :: string

record WorldEnemy =
  enemy_id :: string
  enemy_type :: string
  enemy_level :: int
  enemy_position :: position
  health :: int
  maxHealth :: int
  isAlive :: bool
  spawnTime :: int
  enemy_lastActivity :: int
  enemy_chunkId :: string
  aggroTarget :: "string option"
  lootTable :: "LootDrop list"
  experienceReward :: int

record WeatherState =
  weather_type :: "weather option"
  intensity :: rat
  duration :: rat
  startTime :: int

record EconomyState =
  marketPrices :: "(string \<times> rat) list"
  resourceDemand :: "(string \<times> rat) list"
  tradeVolume :: "(string \<times> rat) list"
  inflationRate :: rat
  lastMarketUpdate :: int

datatype world_event_type =
  resource_respawn | enemy_spawn | weather_change | market_fluctuation | seasonal_change

text \<open>
  The payload \<open>data\<close> of an event, one constructor per shape the source builds. A season
  or a weather type is optional because an array read outside the range gives \<open>undefined\<close>.
\<close>

datatype event_data =
    RespawnData string
  | SeasonData "season option" "season option"
  | WeatherData "weather option" rat
  | MarketData "(string \<times> rat) list"
  | NoData

record WorldEvent =
  event_id :: string
  event_type :: world_event_type
  scheduledTime :: jsnum
  event_data :: event_data
  processed :: bool

record WorldState =
  ws_sessionId :: string
  ws_worldSeed :: int
  gameTime :: int
  season :: "season option"
  dayLength :: int
  loadedChunks :: "string list"
  resources :: "(string \<times> WorldResource) list"
  enemies :: "(string \<times> WorldEnemy) list"
  discoveredLocations :: "string list"
  weatherState :: WeatherState
  economyState :: EconomyState
  eventQueue :: "WorldEvent list"
  lastUpdate :: int
  playerCount :: int

text \<open>
  The state of the service: the map of world states and the callbacks handed to
  \<open>setTimeout\<close> by \<open>removeEnemy\<close>, each with the time it is due, the session of the
  world state it captured and the enemy it will delete.
\<close>

record world_service =
  worldStates :: "(string \<times> WorldState) list"
  removalTimers :: "(int \<times> string \<times> string) list"

definition RESOURCE_RESPAWN_MULTIPLIER :: rat where
  "RESOURCE_RESPAWN_MULTIPLIER = 3 / 2"

definition newWorldService :: world_service where
  "newWorldService = \<lparr>worldStates = [], removalTimers = []\<rparr>"

subsection \<open>Lookup tables\<close>

text \<open>
  Each helper reads an object literal and falls back with \<open>||\<close>; no table holds a
  falsy value, so the fallback is taken exactly for a missing key.
\<close>

definition getResourceMaxUses :: "string \<Rightarrow> int" where
  "getResourceMaxUses t =
     (case map_of [(''wood'', 3), (''stone'', 5), (''iron_ore'', 2), (''healing_herb'', 1)] t of
        Some n \<Rightarrow> n | None \<Rightarrow> 1)"

definition getResourceRespawnTime :: "string \<Rightarrow> rat" where
  "getResourceRespawnTime t =
     (case map_of [(''wood'', 30000), (''stone'', 60000), (''iron_ore'', 120000),
                   (''healing_herb'', 45000)] t of
        Some n \<Rightarrow> n | None \<Rightarrow> 60000)"



record item =
  item_id :: string
  item_name :: string
  item_quantity :: int

definition getResourceItem :: "string \<Rightarrow> item" where
  "getResourceItem t =
     (case map_of [(''wood'', \<lparr>item_id = ''wood'', item_name = ''Wood'', item_quantity = 1\<rparr>),
                   (''stone'', \<lparr>item_id = ''stone'', item_name = ''Stone'', item_quantity = 1\<rparr>),
                   (''iron_ore'',
                      \<lparr>item_id = ''iron_ore'', item_name = ''Iron Ore'', item_quantity = 1\<rparr>),
                   (''healing_herb'',
                      \<lparr>item_id = ''healing_herb'', item_name = ''Healing Herb'',
                       item_quantity = 1\<rparr>)] t of
        Some i \<Rightarrow> i
      | None \<Rightarrow> \<lparr>item_id = t, item_name = t, item_quantity = 1\<rparr>)"

definition getBaseItemPrice :: "string \<Rightarrow> rat" where
  "getBaseItemPrice i =
     (case map_of [(''wood'', 2), (''stone'', 1), (''iron_ore'', 5), (''health_potion'', 25),
                   (''mana_potion'', 20), (''leather'', 3), (''healing_herb'', 2),
                   (''mana_herb'', 4), (''water'', 1)] i of
        Some n \<Rightarrow> n | None \<Rightarrow> 1)"

subsection \<open>World state management\<close>

definition baseItems :: "string list" where
  "baseItems = [''wood'', ''stone'', ''iron_ore'', ''health_potion'', ''mana_potion'',
                ''leather'', ''healing_herb'', ''mana_herb'', ''water'']"

definition initializeEconomy :: "WorldState \<Rightarrow> WorldState" where
  "initializeEconomy ws =
     foldl (\<lambda>w i. w\<lparr>economyState := (economyState w)
                \<lparr>marketPrices := AList.update i (getBaseItemPrice i) (marketPrices (economyState w)),
                 resourceDemand := AList.update i 1 (resourceDemand (economyState w)),
                 tradeVolume := AList.update i 0 (tradeVolume (economyState w))\<rparr>\<rparr>)
       ws baseItems"

text \<open>
  \<open>rndDelay\<close> is the value of \<open>Math.random() * 600000\<close>. The player count is always
  passed to \<open>createWorldState\<close> here; the source takes 1 when the caller leaves it out.
\<close>

definition scheduleInitialEvents :: "WorldState \<Rightarrow> int \<Rightarrow> rat \<Rightarrow> WorldState" where
  "scheduleInitialEvents ws now rndDelay =
     ws\<lparr>eventQueue := eventQueue ws @
          [\<lparr>event_id = ''initial_weather_'' @ ws_sessionId ws, event_type = weather_change,
            scheduledTime = Num (of_int now + 300000 + rndDelay), event_data = NoData,
            processed = False\<rparr>]\<rparr>"

definition createWorldState ::
  "world_service \<Rightarrow> string \<Rightarrow> int \<Rightarrow> int \<Rightarrow> int \<Rightarrow> rat \<Rightarrow> WorldState \<times> world_service" where
  "createWorldState gws sessionId seed pc now rndDelay =
     (let worldState = \<lparr>ws_sessionId = sessionId, ws_worldSeed = seed, gameTime = 0,
            season = Some spring, dayLength = 1200000, loadedChunks = [], resources = [],
            enemies = [], discoveredLocations = [],
            weatherState = \<lparr>weather_type = Some clear, intensity = 0, duration = 600000,
                             startTime = now\<rparr>,
            economyState = \<lparr>marketPrices = [], resourceDemand = [], tradeVolume = [],
                             inflationRate = 1, lastMarketUpdate = now\<rparr>,
            eventQueue = [], lastUpdate = now, playerCount = pc\<rparr>;
          worldState1 = initializeEconomy worldState;
          worldState2 = scheduleInitialEvents worldState1 now rndDelay
      in (worldState2, gws\<lparr>worldStates := AList.update sessionId worldState2 (worldStates gws)\<rparr>))"

subsection \<open>Resource management\<close>

text \<open>
  \<open>generateResource\<close>: the resource type and the world coordinates come out of
  floating-point sines and cosines of the seed, so they are parameters here.
\<close>

definition generateResource ::
  "string \<Rightarrow> int \<Rightarrow> int \<Rightarrow> string \<Rightarrow> nat \<Rightarrow> string \<Rightarrow> rat \<Rightarrow> rat \<Rightarrow> WorldResource" where
  "generateResource sessionId chunkX chunkZ chunkId index resourceType worldX worldZ =
     \<lparr>res_id = ''resource_'' @ sessionId @ ''_'' @ showInt chunkX @ ''_'' @ showInt chunkZ
                 @ ''_'' @ showNat index,
      res_type = resourceType,
      res_position = \<lparr>pos_x = worldX, pos_y = 0, pos_z = worldZ\<rparr>,
      remainingUses = getResourceMaxUses resourceType,
      maxUses = getResourceMaxUses resourceType,
      respawnTime = getResourceRespawnTime resourceType,
      lastHarvestedTime = 0, harvestedBy = None, res_chunkId = chunkId,
      isRespawning = False\<rparr>"

definition getChunkResources :: "world_service \<Rightarrow> string \<Rightarrow> string \<Rightarrow> WorldResource list" where
  "getChunkResources gws sessionId chunkId =
     (case map_of (worldStates gws) sessionId of
        None \<Rightarrow> []
      | Some worldState \<Rightarrow>
          filter (\<lambda>resource. res_chunkId resource = chunkId) (map snd (resources worldState)))"

text \<open>
  \<open>generateChunkResources\<close>: \<open>specs\<close> lists, for the indices \<open>0 ..< resourceCount\<close>, the
  type and coordinates that the noise functions give.
\<close>

definition generateChunkResources ::
  "world_service \<Rightarrow> string \<Rightarrow> int \<Rightarrow> int \<Rightarrow> (string \<times> rat \<times> rat) list
     \<Rightarrow> WorldResource list \<times> world_service" where
  "generateChunkResources gws sessionId chunkX chunkZ specs =
     (case map_of (worldStates gws) sessionId of
        None \<Rightarrow> ([], gws)
      | Some worldState \<Rightarrow>
          let chunkId = showInt chunkX @ '','' @ showInt chunkZ in
          if chunkId \<in> set (loadedChunks worldState)
          then (getChunkResources gws sessionId chunkId, gws)
          else
            let generated = map (\<lambda>(i, (t, wx, wz)).
                    generateResource sessionId chunkX chunkZ chunkId i t wx wz)
                  (zip [0 ..< length specs] specs);
                worldState' = worldState
                  \<lparr>resources := foldl (\<lambda>m resource. AList.update (res_id resource) resource m)
                                  (resources worldState) generated,
                   loadedChunks := loadedChunks worldState @ [chunkId]\<rparr>
            in (generated,
                gws\<lparr>worldStates := AList.update sessionId worldState' (worldStates gws)\<rparr>))"

definition scheduleResourceRespawn :: "WorldState \<Rightarrow> string \<Rightarrow> int \<Rightarrow> WorldState" where
  "scheduleResourceRespawn worldState resourceId now =
     (case map_of (resources worldState) resourceId of
        None \<Rightarrow> worldState
      | Some resource \<Rightarrow>
          let respawnTime' = jsDivide (respawnTime resource)
                 (of_int (playerCount worldState) * RESOURCE_RESPAWN_MULTIPLIER);
              respawnEvent = \<lparr>event_id = ''respawn_'' @ resourceId, event_type = resource_respawn,
                 scheduledTime = jsPlus (of_int now) respawnTime',
                 event_data = RespawnData resourceId, processed = False\<rparr>
          in worldState
               \<lparr>resources := AList.update resourceId (resource\<lparr>isRespawning := True\<rparr>)
                                (resources worldState),
                eventQueue := eventQueue worldState @ [respawnEvent]\<rparr>)"

datatype harvest_result = Harvested item | HarvestRejected string

definition harvestResource ::
  "world_service \<Rightarrow> string \<Rightarrow> string \<Rightarrow> string option \<Rightarrow> int \<Rightarrow> harvest_result \<times> world_service" where
  "harvestResource gws sessionId resourceId playerId now =
     (case map_of (worldStates gws) sessionId of
        None \<Rightarrow> (HarvestRejected ''World state not found'', gws)
      | Some worldState \<Rightarrow>
          (case map_of (resources worldState) resourceId of
             None \<Rightarrow> (HarvestRejected ''Resource not found'', gws)
           | Some resource \<Rightarrow>
               if remainingUses resource \<le> 0
               then (HarvestRejected ''Resource is depleted'', gws)
               else if isRespawning resource
               then (HarvestRejected ''Resource is respawning'', gws)
               else
                 let resource' = resource\<lparr>remainingUses := remainingUses resource - 1,
                       lastHarvestedTime := now, harvestedBy := playerId\<rparr>;
                     worldState1 = worldState\<lparr>resources :=
                       AList.update resourceId resource' (resources worldState)\<rparr>;
                     harvestedItem = getResourceItem (res_type resource');
                     worldState2 = (if remainingUses resource' \<le> 0
                       then scheduleResourceRespawn worldState1 resourceId now
                       else worldState1)
                 in (Harvested harvestedItem,
                     gws\<lparr>worldStates :=
                       AList.update sessionId worldState2 (worldStates gws)\<rparr>)))"

subsection \<open>Enemy management\<close>

definition MAX_ENEMIES_PER_CHUNK :: nat where
  "MAX_ENEMIES_PER_CHUNK = 5"

definition generateLootTable :: "string \<Rightarrow> int \<Rightarrow> LootDrop list" where
  "generateLootTable enemyType lvl =
     (case map_of
        [(''goblin'',
            [\<lparr>itemId = ''wood'', quantity = 1, dropChance = 3 / 10, rarity = ''common''\<rparr>,
             \<lparr>itemId = ''stone'', quantity = 1, dropChance = 2 / 10, rarity = ''common''\<rparr>]),
         (''wolf'',
            [\<lparr>itemId = ''meat'', quantity = 2, dropChance = 8 / 10, rarity = ''common''\<rparr>,
             \<lparr>itemId = ''pelt'', quantity = 1, dropChance = 4 / 10, rarity = ''common''\<rparr>]),
         (''orc'',
            [\<lparr>itemId = ''iron_ore'', quantity = 1, dropChance = 4 / 10, rarity = ''uncommon''\<rparr>,
             \<lparr>itemId = ''weapon_parts'', quantity = 1, dropChance = 3 / 10,
              rarity = ''uncommon''\<rparr>])] enemyType of
        Some l \<Rightarrow> l | None \<Rightarrow> [])"

text \<open>
  \<open>generateEnemy\<close>: the coordinates, the enemy type (floating point) and the level and
  the suffix of the id (random) are parameters.
\<close>

definition generateEnemy ::
  "string \<Rightarrow> string \<Rightarrow> rat \<Rightarrow> rat \<Rightarrow> string \<Rightarrow> int \<Rightarrow> string \<Rightarrow> int \<Rightarrow> WorldEnemy" where
  "generateEnemy sessionId chunkId worldX worldZ enemyType lvl idRnd now =
     \<lparr>enemy_id = ''enemy_'' @ sessionId @ ''_'' @ showInt now @ ''_'' @ idRnd,
      enemy_type = enemyType, enemy_level = lvl,
      enemy_position = \<lparr>pos_x = worldX, pos_y = 0, pos_z = worldZ\<rparr>,
      health = 30 * lvl, maxHealth = 30 * lvl, isAlive = True, spawnTime = now,
      enemy_lastActivity = now, enemy_chunkId = chunkId, aggroTarget = None,
      lootTable = generateLootTable enemyType lvl, experienceReward = lvl * 25\<rparr>"

definition getChunkEnemies :: "world_service \<Rightarrow> string \<Rightarrow> string \<Rightarrow> WorldEnemy list" where
  "getChunkEnemies gws sessionId chunkId =
     (case map_of (worldStates gws) sessionId of
        None \<Rightarrow> []
      | Some worldState \<Rightarrow>
          filter (\<lambda>enemy. enemy_chunkId enemy = chunkId \<and> isAlive enemy)
            (map snd (enemies worldState)))"

text \<open>
  \<open>generateChunkEnemies\<close>: \<open>rndCount\<close> is \<open>1 + Math.floor(Math.random() * 3)\<close> and
  \<open>specs\<close> holds, for each enemy spawned, its coordinates, type, level and id suffix.
\<close>

definition generateChunkEnemies ::
  "world_service \<Rightarrow> string \<Rightarrow> int \<Rightarrow> int \<Rightarrow> nat \<Rightarrow> (rat \<times> rat \<times> string \<times> int \<times> string) list
     \<Rightarrow> int \<Rightarrow> WorldEnemy list \<times> world_service" where
  "generateChunkEnemies gws sessionId chunkX chunkZ rndCount specs now =
     (case map_of (worldStates gws) sessionId of
        None \<Rightarrow> ([], gws)
      | Some worldState \<Rightarrow>
          let chunkId = showInt chunkX @ '','' @ showInt chunkZ;
              existingEnemies = getChunkEnemies gws sessionId chunkId
          in if length existingEnemies \<ge> MAX_ENEMIES_PER_CHUNK then (existingEnemies, gws)
             else
               let spawnCount = min (MAX_ENEMIES_PER_CHUNK - length existingEnemies) rndCount;
                   spawned = map (\<lambda>(wx, wz, t, lvl, idRnd).
                       generateEnemy sessionId chunkId wx wz t lvl idRnd now)
                     (take spawnCount specs);
                   worldState' = worldState\<lparr>enemies :=
                     foldl (\<lambda>m enemy. AList.update (enemy_id enemy) enemy m)
                       (enemies worldState) spawned\<rparr>
               in (existingEnemies @ spawned,
                   gws\<lparr>worldStates := AList.update sessionId worldState' (worldStates gws)\<rparr>))"

definition removeEnemy :: "world_service \<Rightarrow> string \<Rightarrow> string \<Rightarrow> int \<Rightarrow> bool \<times> world_service" where
  "removeEnemy gws sessionId enemyId now =
     (case map_of (worldStates gws) sessionId of
        None \<Rightarrow> (False, gws)
      | Some worldState \<Rightarrow>
          (case map_of (enemies worldState) enemyId of
             None \<Rightarrow> (False, gws)
           | Some enemy \<Rightarrow>
               let enemy' = enemy\<lparr>isAlive := False, health := 0\<rparr>;
                   worldState' = worldState\<lparr>enemies :=
                     AList.update enemyId enemy' (enemies worldState)\<rparr>
               in (True,
                   gws\<lparr>worldStates := AList.update sessionId worldState' (worldStates gws),
                       removalTimers := removalTimers gws @ [(now + 30000, sessionId, enemyId)]\<rparr>)))"

subsection \<open>Time and season management\<close>

definition changeSeason :: "WorldState \<Rightarrow> season option \<Rightarrow> int \<Rightarrow> WorldState" where
  "changeSeason worldState newSeason now =
     (let worldState1 = worldState\<lparr>season := newSeason\<rparr>;
          seasonalEvent = \<lparr>event_id = ''season_'' @ showInt now, event_type = seasonal_change,
             scheduledTime = Num (of_int now),
             event_data = SeasonData newSeason (season worldState1), processed = False\<rparr>
      in worldState1\<lparr>eventQueue := eventQueue worldState1 @ [seasonalEvent]\<rparr>)"

definition seasons :: "season list" where
  "seasons = [spring, summer, autumn, winter]"

text \<open>
  The season index \<open>Math.floor(daysPassed / 30) % 4\<close>: \<open>Math.floor\<close> of a quotient of
  integers is \<open>div\<close>, and \<open>%\<close> takes the sign of the dividend, so a negative count of
  months gives a negative index, or \<open>-0\<close>, which indexes like \<open>0\<close>. With \<open>dayLength = 0\<close>
  the quotient is infinite or \<open>NaN\<close> and so is the index. An index outside the array
  reads \<open>undefined\<close>.
\<close>

definition seasonAt :: "int \<Rightarrow> int \<Rightarrow> season option" where
  "seasonAt time dayLen =
     (if dayLen = 0 then None
      else
        let daysPassed = time div dayLen;
            months = daysPassed div 30;
            seasonIndex = (if months \<ge> 0 then months mod 4 else - ((- months) mod 4))
        in if 0 \<le> seasonIndex \<and> seasonIndex < 4 then Some (seasons ! nat seasonIndex) else None)"

definition updateGameTime :: "world_service \<Rightarrow> string \<Rightarrow> int \<Rightarrow> int \<Rightarrow> world_service" where
  "updateGameTime gws sessionId deltaTime now =
     (case map_of (worldStates gws) sessionId of
        None \<Rightarrow> gws
      | Some worldState \<Rightarrow>
          let worldState1 = worldState\<lparr>gameTime := gameTime worldState + deltaTime\<rparr>;
              newSeason = seasonAt (gameTime worldState1) (dayLength worldState1);
              worldState2 = (if newSeason \<noteq> season worldState1
                             then changeSeason worldState1 newSeason now else worldState1)
          in gws\<lparr>worldStates := AList.update sessionId worldState2 (worldStates gws)\<rparr>)"

subsection \<open>Weather system\<close>




subsection \<open>Economy system\<close>



subsection \<open>Event processing\<close>







subsection \<open>Between a depletion and its respawn\<close>







section \<open>The gateway handlers that reach the arbiters\<close>

text \<open>
  A message sent with \<open>socket.to(room).emit(name, payload)\<close>: it goes to every socket of
  the room but the sender.
\<close>

datatype payload =
    ResourceHarvested string string int
  | EnemyDefeated string string json json int

record broadcast =
  room :: string
  sender :: string
  message :: payload

definition on_resource_harvested ::
  "registry \<Rightarrow> world_service \<Rightarrow> string \<Rightarrow> string \<Rightarrow> int \<Rightarrow> world_service \<times> broadcast list" where
  "on_resource_harvested reg gws sock resourceId now =
     (case getPlayerSession reg sock of
        None \<Rightarrow> (gws, [])
      | Some session \<Rightarrow>
          (snd (harvestResource gws (session_id session) resourceId None now),
           [\<lparr>room = session_id session, sender = sock,
             message = ResourceHarvested resourceId sock now\<rparr>]))"

definition on_enemy_defeated ::
  "registry \<Rightarrow> world_service \<Rightarrow> string \<Rightarrow> string \<Rightarrow> json \<Rightarrow> json \<Rightarrow> int
     \<Rightarrow> world_service \<times> broadcast list" where
  "on_enemy_defeated reg gws sock enemyId experience loot now =
     (case getPlayerSession reg sock of
        None \<Rightarrow> (gws, [])
      | Some session \<Rightarrow>
          (snd (removeEnemy gws (session_id session) enemyId now),
           [\<lparr>room = session_id session, sender = sock,
             message = EnemyDefeated enemyId sock experience loot now\<rparr>]))"

section \<open>A concrete session: Aria hosts, Bram joins\<close>

definition ariaRegistry :: registry where
  "ariaRegistry =
     (case createSession newRegistry ''sock_aria'' ''Aria'' 1000 ''k3x9q2m1z'' [23, 26, 11, 27, 2, 28] 424242 of
        Some (_, st) \<Rightarrow> st | None \<Rightarrow> newRegistry)"

definition ariaSessionId :: string where
  "ariaSessionId = generateSessionId 1000 ''k3x9q2m1z''"

definition ariaBramRegistry :: registry where
  "ariaBramRegistry = snd (joinSession ariaRegistry ''sock_bram'' ''X0L1C2'' ''Bram'' 2000 ''ab12c'')"

definition ariaPlayer :: SessionPlayer where
  "ariaPlayer = \<lparr>player_id = ''player_1000'', socketId = ''sock_aria'', player_name = ''Aria'',
      joinedAt = 1000, lastSeen = 1000, position = None, level = 1, isHost = True,
      inventory = None, stats = None\<rparr>"

definition bramPlayer :: SessionPlayer where
  "bramPlayer = \<lparr>player_id = ''player_2000_ab12c'', socketId = ''sock_bram'',
      player_name = ''Bram'', joinedAt = 2000, lastSeen = 2000, position = None, level = 1,
      isHost = False, inventory = None, stats = None\<rparr>"

definition ariaBramSession :: GameSession where
  "ariaBramSession = \<lparr>session_id = ''session_1000_k3x9q2m1z'', hostCode = ''X0L1C2'',
        hostId = ''sock_aria'', hostName = ''Aria'', players = [ariaPlayer, bramPlayer],
        maxPlayers = 8, isPublic = False, createdAt = 1000, lastActivity = 2000,
        worldSeed = 424242,
        gameState = \<lparr>worldTime = 0, gs_season = ''spring'', harvestedResources = [],
                  defeatedEnemies = [], sharedInventory = [], gs_economyState = JObj []\<rparr>\<rparr>"

definition lowerCaseLetters :: string where
  "lowerCaseLetters = ''abcdefghijklmnopqrstuvwxyz''"

section \<open>A concrete world: the world of Aria's session\<close>

text \<open>
  The world state is created for the session of Aria and Bram with two players; chunk
  \<open>(0, 0)\<close> holds a tree (wood, three uses) and a herb (one use), and later a goblin.
\<close>

definition ariaWorld0 :: world_service where
  "ariaWorld0 = snd (createWorldState newWorldService ''session_1000_k3x9q2m1z'' 424242 2 1000 150000)"

definition ariaWorld :: world_service where
  "ariaWorld = snd (generateChunkResources ariaWorld0 ''session_1000_k3x9q2m1z'' 0 0
                      [(''wood'', 5, 7), (''healing_herb'', 9, 11)])"

definition woodR1 :: WorldResource where
  "woodR1 = \<lparr>res_id = ''resource_session_1000_k3x9q2m1z_0_0_0'', res_type = ''wood'',
      res_position = \<lparr>pos_x = 5, pos_y = 0, pos_z = 7\<rparr>, remainingUses = 3, maxUses = 3,
      respawnTime = 30000, lastHarvestedTime = 0, harvestedBy = None, res_chunkId = ''0,0'',
      isRespawning = False\<rparr>"

definition herbR2 :: WorldResource where
  "herbR2 = \<lparr>res_id = ''resource_session_1000_k3x9q2m1z_0_0_1'', res_type = ''healing_herb'',
      res_position = \<lparr>pos_x = 9, pos_y = 0, pos_z = 11\<rparr>, remainingUses = 1, maxUses = 1,
      respawnTime = 45000, lastHarvestedTime = 0, harvestedBy = None, res_chunkId = ''0,0'',
      isRespawning = False\<rparr>"

definition ariaWorldState :: WorldState where
  "ariaWorldState =
     \<lparr>ws_sessionId = ''session_1000_k3x9q2m1z'', ws_worldSeed = 424242, gameTime = 0,
      season = Some spring, dayLength = 1200000, loadedChunks = [''0,0''],
      resources = [(''resource_session_1000_k3x9q2m1z_0_0_0'', woodR1),
                   (''resource_session_1000_k3x9q2m1z_0_0_1'', herbR2)],
      enemies = [], discoveredLocations = [],
      weatherState = \<lparr>weather_type = Some clear, intensity = 0, duration = 600000,
                       startTime = 1000\<rparr>,
      economyState =
        \<lparr>marketPrices = [(''wood'', 2), (''stone'', 1), (''iron_ore'', 5), (''health_potion'', 25),
            (''mana_potion'', 20), (''leather'', 3), (''healing_herb'', 2), (''mana_herb'', 4),
            (''water'', 1)],
         resourceDemand = [(''wood'', 1), (''stone'', 1), (''iron_ore'', 1), (''health_potion'', 1),
            (''mana_potion'', 1), (''leather'', 1), (''healing_herb'', 1), (''mana_herb'', 1),
            (''water'', 1)],
         tradeVolume = [(''wood'', 0), (''stone'', 0), (''iron_ore'', 0), (''health_potion'', 0),
            (''mana_potion'', 0), (''leather'', 0), (''healing_herb'', 0), (''mana_herb'', 0),
            (''water'', 0)],
         inflationRate = 1, lastMarketUpdate = 1000\<rparr>,
      eventQueue = [\<lparr>event_id = ''initial_weather_session_1000_k3x9q2m1z'',
                     event_type = weather_change, scheduledTime = Num 451000,
                     event_data = NoData, processed = False\<rparr>],
      lastUpdate = 1000, playerCount = 2\<rparr>"

definition threeHarvests :: world_service where
  "threeHarvests =
     snd (harvestResource
       (snd (harvestResource
          (snd (harvestResource ariaWorld ''session_1000_k3x9q2m1z''
                  ''resource_session_1000_k3x9q2m1z_0_0_0'' (Some ''sock_aria'') 3000))
          ''session_1000_k3x9q2m1z'' ''resource_session_1000_k3x9q2m1z_0_0_0''
          (Some ''sock_aria'') 4000))
       ''session_1000_k3x9q2m1z'' ''resource_session_1000_k3x9q2m1z_0_0_0''
       (Some ''sock_aria'') 5000)"

definition enemyWorld :: world_service where
  "enemyWorld = snd (generateChunkEnemies ariaWorld ''session_1000_k3x9q2m1z'' 0 0 2
                       [(12, 14, ''goblin'', 2, ''q1w2e3r4t'')] 2500)"

definition firstDefeat :: "world_service \<times> broadcast list" where
  "firstDefeat = on_enemy_defeated ariaBramRegistry enemyWorld ''sock_aria''
                   ''enemy_session_1000_k3x9q2m1z_2500_q1w2e3r4t'' (JNum 50) (JArr []) 7000"

definition secondDefeat :: "world_service \<times> broadcast list" where
  "secondDefeat = on_enemy_defeated ariaBramRegistry (fst firstDefeat) ''sock_bram''
                    ''enemy_session_1000_k3x9q2m1z_2500_q1w2e3r4t'' (JNum 50) (JArr []) 7100"

definition goblinE1 :: WorldEnemy where
  "goblinE1 = generateEnemy ''session_1000_k3x9q2m1z'' ''0,0'' 12 14 ''goblin'' 2 ''q1w2e3r4t'' 2500"

definition deadGoblin :: WorldEnemy where
  "deadGoblin = goblinE1\<lparr>isAlive := False, health := 0\<rparr>"




section \<open>The registry invariant\<close>

lemma map_of_foldl_delete:
  "map_of (foldl (\<lambda>m p. AList.delete (socketId p) m) m ps) c =
     (if c \<in> socketId ` set ps then None else map_of m c)"
  by (induction ps arbitrary: m) (auto simp: delete_conv')

lemma distinct_foldl_delete:
  "distinct (map fst m) \<Longrightarrow> distinct (map fst (foldl (\<lambda>m p. AList.delete (socketId p) m) m ps))"
  by (induction ps arbitrary: m) (auto simp: distinct_delete)

lemma findIndex_Some:
  "findIndex P xs = Some i \<Longrightarrow> i < length xs \<and> P (xs ! i)"
  by (induction xs arbitrary: i) (auto split: if_splits)

lemma findIndex_None: "findIndex P xs = None \<longleftrightarrow> (\<forall>x\<in>set xs. \<not> P x)"
  by (induction xs) auto

lemma filter_remove_nth:
  "i < length xs \<Longrightarrow>
     length (filter P (take i xs @ drop (Suc i) xs)) =
       length (filter P xs) - (if P (xs ! i) then 1 else 0)"
proof -
  assume "i < length xs"
  then have "xs = take i xs @ xs ! i # drop (Suc i) xs" by (rule id_take_nth_drop)
  then have "length (filter P xs) = length (filter P (take i xs @ xs ! i # drop (Suc i) xs))"
    by simp
  then show ?thesis by simp
qed

lemma set_remove_nth:
  "i < length xs \<Longrightarrow> set xs = insert (xs ! i) (set (take i xs @ drop (Suc i) xs))"
proof -
  assume "i < length xs"
  then have "xs = take i xs @ xs ! i # drop (Suc i) xs" by (rule id_take_nth_drop)
  then have "set xs = set (take i xs @ xs ! i # drop (Suc i) xs)" by simp
  then show ?thesis by simp
qed

lemma length_remove_nth:
  "i < length xs \<Longrightarrow> length (take i xs @ drop (Suc i) xs) = length xs - 1"
  by auto

lemma set_hostCodeOf_aux:
  "set acc \<subseteq> set chars \<Longrightarrow> set (foldl (\<lambda>code d. code @ charAt chars d) acc ds) \<subseteq> set chars"
  by (induction ds arbitrary: acc) (auto simp: charAt_def)

lemma set_hostCodeOf: "set (hostCodeOf ds) \<subseteq> set chars"
  unfolding hostCodeOf_def by (rule set_hostCodeOf_aux) simp

lemma generateHostCode_Some:
  "generateHostCode codes draws = Some code \<Longrightarrow> map_of codes code = None \<and> set code \<subseteq> set chars"
proof (induction codes draws rule: generateHostCode.induct)
  case (1 codes draws)
  then show ?case
    using set_hostCodeOf
    by (subst (asm) (2) generateHostCode.simps) (auto simp: Let_def split: if_splits)
qed


lemma generateSessionId_nonempty: "generateSessionId now r \<noteq> []"
  by (simp add: generateSessionId_def)


lemma registry_invI:
  assumes "distinct (map fst (sessions st))" "distinct (map fst (playerSessions st))"
    "distinct (map fst (hostCodes st))"
    "\<And>sid s. map_of (sessions st) sid = Some s \<Longrightarrow> session_ok s"
    "\<And>c sid. map_of (playerSessions st) c = Some sid \<Longrightarrow>
        sid \<noteq> [] \<and> (\<exists>s. map_of (sessions st) sid = Some s \<and> c \<in> socketId ` set (players s))"
    "\<And>code sid. map_of (hostCodes st) code = Some sid \<Longrightarrow>
        sid \<noteq> [] \<and> set code \<subseteq> set chars
        \<and> (\<exists>s. map_of (sessions st) sid = Some s \<and> hostCode s = code)"
  shows "registry_inv st"
  using assms unfolding registry_inv_def by blast

lemma inv_distinct:
  "registry_inv st \<Longrightarrow> distinct (map fst (sessions st)) \<and> distinct (map fst (playerSessions st))
     \<and> distinct (map fst (hostCodes st))"
  unfolding registry_inv_def by blast

lemma inv_sessionD: "registry_inv st \<Longrightarrow> map_of (sessions st) sid = Some s \<Longrightarrow> session_ok s"
  unfolding registry_inv_def by blast

lemma inv_playerD:
  "registry_inv st \<Longrightarrow> map_of (playerSessions st) c = Some sid \<Longrightarrow>
     sid \<noteq> [] \<and> (\<exists>s. map_of (sessions st) sid = Some s \<and> c \<in> socketId ` set (players s))"
  unfolding registry_inv_def by blast

lemma inv_codeD:
  "registry_inv st \<Longrightarrow> map_of (hostCodes st) code = Some sid \<Longrightarrow>
     sid \<noteq> [] \<and> set code \<subseteq> set chars
     \<and> (\<exists>s. map_of (sessions st) sid = Some s \<and> hostCode s = code)"
  unfolding registry_inv_def by blast

lemma inv_create:
  assumes inv: "registry_inv st"
    and fr: "map_of (sessions st) (generateSessionId now sidRnd) = None"
    and cr: "createSession st sock nm now sidRnd draws seed = Some (res, st')"
  shows "registry_inv st'"
proof (cases "length (sessions st) \<ge> MAX_SESSIONS")
  case True
  with inv cr show ?thesis by (simp add: createSession_def)
next
  case False
  with cr obtain code where gc: "generateHostCode (hostCodes st) draws = Some code"
    by (auto simp: createSession_def Let_def split: option.splits)
  from generateHostCode_Some[OF gc] have fresh: "map_of (hostCodes st) code = None"
    and alpha: "set code \<subseteq> set chars" by auto
  define sid where "sid = generateSessionId now sidRnd"
  have sidne: "sid \<noteq> []" by (simp add: sid_def generateSessionId_nonempty)
  from cr False gc obtain s where
    st': "st' = st\<lparr>sessions := AList.update sid s (sessions st),
                    playerSessions := AList.update sock sid (playerSessions st),
                    hostCodes := AList.update code sid (hostCodes st)\<rparr>"
    and s: "players s = [\<lparr>player_id = ''player_'' @ showInt now, socketId = sock,
                  player_name = nm, joinedAt = now, lastSeen = now, position = None,
                  level = 1, isHost = True, inventory = None, stats = None\<rparr>]"
       "maxPlayers s = 8" "hostCode s = code"
    by (auto simp: createSession_def Let_def MAX_PLAYERS_PER_SESSION_def sid_def)
  have ok: "session_ok s" using s by (simp add: session_ok_def hostCount_def)
  have fr': "map_of (sessions st) sid = None" using fr by (simp add: sid_def)
  show ?thesis
  proof (rule registry_invI)
    show "distinct (map fst (sessions st'))" "distinct (map fst (playerSessions st'))"
      "distinct (map fst (hostCodes st'))"
      using inv_distinct[OF inv] by (simp_all add: st' distinct_update)
  next
    fix sid' s' assume "map_of (sessions st') sid' = Some s'"
    then show "session_ok s'" using ok inv_sessionD[OF inv]
      by (auto simp: st' update_conv' split: if_splits)
  next
    fix c sid' assume a: "map_of (playerSessions st') c = Some sid'"
    show "sid' \<noteq> [] \<and> (\<exists>s. map_of (sessions st') sid' = Some s \<and> c \<in> socketId ` set (players s))"
    proof (cases "c = sock")
      case True
      with a have "sid' = sid" by (simp add: st' update_conv')
      then show ?thesis using sidne s True by (simp add: st' update_conv')
    next
      case False
      with a have b: "map_of (playerSessions st) c = Some sid'" by (simp add: st' update_conv')
      from inv_playerD[OF inv b] fr' show ?thesis by (auto simp: st' update_conv')
    qed
  next
    fix code' sid' assume a: "map_of (hostCodes st') code' = Some sid'"
    show "sid' \<noteq> [] \<and> set code' \<subseteq> set chars
        \<and> (\<exists>s. map_of (sessions st') sid' = Some s \<and> hostCode s = code')"
    proof (cases "code' = code")
      case True
      with a have "sid' = sid" by (simp add: st' update_conv')
      then show ?thesis using sidne s True alpha by (simp add: st' update_conv')
    next
      case False
      with a have b: "map_of (hostCodes st) code' = Some sid'" by (simp add: st' update_conv')
      from inv_codeD[OF inv b] fr' show ?thesis by (auto simp: st' update_conv')
    qed
  qed
qed


lemma inv_update_session:
  assumes inv: "registry_inv st" and s: "map_of (sessions st) sid = Some s"
    and ok: "session_ok s'" and sub: "socketId ` set (players s) \<subseteq> socketId ` set (players s')"
    and hc: "hostCode s' = hostCode s"
  shows "registry_inv (st\<lparr>sessions := AList.update sid s' (sessions st)\<rparr>)"
proof (rule registry_invI)
  show "distinct (map fst (sessions (st\<lparr>sessions := AList.update sid s' (sessions st)\<rparr>)))"
    "distinct (map fst (playerSessions (st\<lparr>sessions := AList.update sid s' (sessions st)\<rparr>)))"
    "distinct (map fst (hostCodes (st\<lparr>sessions := AList.update sid s' (sessions st)\<rparr>)))"
    using inv_distinct[OF inv] by (simp_all add: distinct_update)
next
  fix sid' t assume "map_of (sessions (st\<lparr>sessions := AList.update sid s' (sessions st)\<rparr>)) sid' = Some t"
  then show "session_ok t" using ok inv_sessionD[OF inv]
    by (auto simp: update_conv' split: if_splits)
next
  fix c sid' assume "map_of (playerSessions (st\<lparr>sessions := AList.update sid s' (sessions st)\<rparr>)) c = Some sid'"
  then have b: "map_of (playerSessions st) c = Some sid'" by simp
  from inv_playerD[OF inv b] s sub
  show "sid' \<noteq> [] \<and> (\<exists>t. map_of (sessions (st\<lparr>sessions := AList.update sid s' (sessions st)\<rparr>)) sid' = Some t
       \<and> c \<in> socketId ` set (players t))"
    by (auto simp: update_conv')
next
  fix code sid' assume "map_of (hostCodes (st\<lparr>sessions := AList.update sid s' (sessions st)\<rparr>)) code = Some sid'"
  then have b: "map_of (hostCodes st) code = Some sid'" by simp
  from inv_codeD[OF inv b] s hc
  show "sid' \<noteq> [] \<and> set code \<subseteq> set chars
     \<and> (\<exists>t. map_of (sessions (st\<lparr>sessions := AList.update sid s' (sessions st)\<rparr>)) sid' = Some t
          \<and> hostCode t = code)"
    by (auto simp: update_conv')
qed

lemma inv_add_mapping:
  assumes inv: "registry_inv st" and s: "map_of (sessions st) sid = Some s"
    and mem: "sock \<in> socketId ` set (players s)" and ne: "sid \<noteq> []"
  shows "registry_inv (st\<lparr>playerSessions := AList.update sock sid (playerSessions st)\<rparr>)"
proof (rule registry_invI)
  show "distinct (map fst (sessions (st\<lparr>playerSessions := AList.update sock sid (playerSessions st)\<rparr>)))"
    "distinct (map fst (playerSessions (st\<lparr>playerSessions := AList.update sock sid (playerSessions st)\<rparr>)))"
    "distinct (map fst (hostCodes (st\<lparr>playerSessions := AList.update sock sid (playerSessions st)\<rparr>)))"
    using inv_distinct[OF inv] by (simp_all add: distinct_update)
next
  fix sid' t assume "map_of (sessions (st\<lparr>playerSessions := AList.update sock sid (playerSessions st)\<rparr>)) sid' = Some t"
  then show "session_ok t" using inv_sessionD[OF inv] by simp
next
  fix c sid'
  assume a: "map_of (playerSessions (st\<lparr>playerSessions := AList.update sock sid (playerSessions st)\<rparr>)) c = Some sid'"
  show "sid' \<noteq> [] \<and> (\<exists>t. map_of (sessions (st\<lparr>playerSessions := AList.update sock sid (playerSessions st)\<rparr>)) sid' = Some t
       \<and> c \<in> socketId ` set (players t))"
  proof (cases "c = sock")
    case True
    with a have "sid' = sid" by (simp add: update_conv')
    with s mem ne True show ?thesis by simp
  next
    case False
    with a have b: "map_of (playerSessions st) c = Some sid'" by (simp add: update_conv')
    from inv_playerD[OF inv b] show ?thesis by simp
  qed
next
  fix code sid'
  assume "map_of (hostCodes (st\<lparr>playerSessions := AList.update sock sid (playerSessions st)\<rparr>)) code = Some sid'"
  then have b: "map_of (hostCodes st) code = Some sid'" by simp
  from inv_codeD[OF inv b]
  show "sid' \<noteq> [] \<and> set code \<subseteq> set chars
     \<and> (\<exists>t. map_of (sessions (st\<lparr>playerSessions := AList.update sock sid (playerSessions st)\<rparr>)) sid' = Some t
          \<and> hostCode t = code)"
    by simp
qed

lemma inv_join:
  assumes inv: "registry_inv st" and j: "joinSession st sock code nm now idRnd = (jres, st')"
  shows "registry_inv st'"
proof (cases jres)
  case (JoinError e)
  with j have "st' = st"
    by (auto simp: joinSession_def Let_def split: option.splits if_splits)
  with inv show ?thesis by simp
next
  case (Joined s')
  with j obtain sid s where
    c: "map_of (hostCodes st) code = Some sid" and ne: "sid \<noteq> []"
    and s: "map_of (sessions st) sid = Some s"
    and room: "length (players s) < maxPlayers s"
    and st': "st' = st\<lparr>sessions := AList.update sid s' (sessions st),
                    playerSessions := AList.update sock sid (playerSessions st)\<rparr>"
    and s': "s' = s\<lparr>players := players s @ [\<lparr>player_id = ''player_'' @ showInt now @ ''_'' @ idRnd,
                      socketId = sock, player_name = nm, joinedAt = now,
                      lastSeen = now, position = None, level = 1, isHost = False,
                      inventory = None, stats = None\<rparr>], lastActivity := now\<rparr>"
    by (auto simp: joinSession_def Let_def split: option.splits if_splits)
  from inv_sessionD[OF inv s] room have ok: "session_ok s'"
    by (auto simp: session_ok_def hostCount_def s')
  have inv1: "registry_inv (st\<lparr>sessions := AList.update sid s' (sessions st)\<rparr>)"
    by (rule inv_update_session[OF inv s ok]) (auto simp: s')
  have "registry_inv ((st\<lparr>sessions := AList.update sid s' (sessions st)\<rparr>)
          \<lparr>playerSessions := AList.update sock sid
             (playerSessions (st\<lparr>sessions := AList.update sid s' (sessions st)\<rparr>))\<rparr>)"
    by (rule inv_add_mapping[OF inv1 _ _ ne, where s = s']) (auto simp: update_conv' s')
  then show ?thesis by (simp add: st')
qed

lemma inv_delete:
  assumes inv: "registry_inv st" and d: "deleteSession st sid = (b, st')"
  shows "registry_inv st'"
proof (cases "map_of (sessions st) sid")
  case None
  with d inv show ?thesis by (simp add: deleteSession_def)
next
  case (Some s)
  with d have st': "st' = st\<lparr>playerSessions :=
                 foldl (\<lambda>m p. AList.delete (socketId p) m) (playerSessions st) (players s),
              hostCodes := AList.delete (hostCode s) (hostCodes st),
              sessions := AList.delete sid (sessions st)\<rparr>"
    by (auto simp: deleteSession_def)
  show ?thesis
  proof (rule registry_invI)
    show "distinct (map fst (sessions st'))" "distinct (map fst (playerSessions st'))"
      "distinct (map fst (hostCodes st'))"
      using inv_distinct[OF inv] by (simp_all add: st' distinct_delete distinct_foldl_delete)
  next
    fix sid' t assume "map_of (sessions st') sid' = Some t"
    then show "session_ok t" using inv_sessionD[OF inv]
      by (auto simp: st' delete_conv' split: if_splits)
  next
    fix c sid' assume a: "map_of (playerSessions st') c = Some sid'"
    then have nc: "c \<notin> socketId ` set (players s)" and b: "map_of (playerSessions st) c = Some sid'"
      by (auto simp: st' map_of_foldl_delete split: if_splits)
    from inv_playerD[OF inv b] nc Some
    show "sid' \<noteq> [] \<and> (\<exists>t. map_of (sessions st') sid' = Some t \<and> c \<in> socketId ` set (players t))"
      by (auto simp: st' delete_conv')
  next
    fix code sid' assume a: "map_of (hostCodes st') code = Some sid'"
    then have nc: "code \<noteq> hostCode s" and b: "map_of (hostCodes st) code = Some sid'"
      by (auto simp: st' delete_conv' split: if_splits)
    from inv_codeD[OF inv b] nc Some
    show "sid' \<noteq> [] \<and> set code \<subseteq> set chars
        \<and> (\<exists>t. map_of (sessions st') sid' = Some t \<and> hostCode t = code)"
      by (auto simp: st' delete_conv')
  qed
qed



lemma registry_update_swap:
  "st\<lparr>sessions := A, playerSessions := B\<rparr> = st\<lparr>playerSessions := B, sessions := A\<rparr>"
  by (cases st) simp

lemma remove_unmapped:
  "map_of (playerSessions st) sock = None \<or> map_of (playerSessions st) sock = Some []
   \<or> (\<exists>sid. map_of (playerSessions st) sock = Some sid \<and> map_of (sessions st) sid = None)
   \<or> (\<exists>sid s. map_of (playerSessions st) sock = Some sid \<and> map_of (sessions st) sid = Some s
         \<and> findIndex (\<lambda>p. socketId p = sock) (players s) = None)
   \<Longrightarrow> removePlayerFromSession st sock now = (False, st)"
  by (auto simp: removePlayerFromSession_def)

lemma remove_nonhost:
  assumes "map_of (playerSessions st) sock = Some sid" "sid \<noteq> []"
    "map_of (sessions st) sid = Some s"
    "findIndex (\<lambda>p. socketId p = sock) (players s) = Some i"
    "\<not> isHost (players s ! i)"
  shows "removePlayerFromSession st sock now =
    (True, st\<lparr>sessions := AList.update sid
               (s\<lparr>players := take i (players s) @ drop (Suc i) (players s), lastActivity := now\<rparr>)
               (sessions st),
             playerSessions := AList.delete sock (playerSessions st)\<rparr>)"
  using assms by (simp add: removePlayerFromSession_def Let_def)

lemma remove_host_transfer:
  assumes "map_of (playerSessions st) sock = Some sid" "sid \<noteq> []"
    "map_of (sessions st) sid = Some s"
    "findIndex (\<lambda>p. socketId p = sock) (players s) = Some i"
    "isHost (players s ! i)"
    "take i (players s) @ drop (Suc i) (players s) = p0 # others"
  shows "removePlayerFromSession st sock now =
    (True, st\<lparr>playerSessions := AList.delete sock (playerSessions st),
             sessions := AList.update sid
               (s\<lparr>lastActivity := now, players := p0\<lparr>isHost := True\<rparr> # others,
                  hostId := socketId p0, hostName := player_name p0\<rparr>) (sessions st)\<rparr>)"
  using assms by (simp add: removePlayerFromSession_def Let_def)

lemma remove_host_last:
  assumes m: "map_of (playerSessions st) sock = Some sid" "sid \<noteq> []"
    "map_of (sessions st) sid = Some s"
    and f: "findIndex (\<lambda>p. socketId p = sock) (players s) = Some i"
    and h: "isHost (players s ! i)"
    and e: "take i (players s) @ drop (Suc i) (players s) = []"
  shows "removePlayerFromSession st sock now =
    (True, st\<lparr>playerSessions := AList.delete sock (playerSessions st),
             hostCodes := AList.delete (hostCode s) (hostCodes st),
             sessions := AList.delete sid (sessions st)\<rparr>)"
proof -
  from findIndex_Some[OF f] have il: "i < length (players s)" by simp
  from e have "length (take i (players s)) + length (drop (Suc i) (players s)) = 0"
    by (metis length_append list.size(3))
  with il have i0: "i = 0" and l1: "length (players s) = 1" by auto
  then obtain p where ps: "players s = [p]" by (cases "players s") auto
  from f h have fp: "socketId p = sock" "isHost p"
    using findIndex_Some[OF f] by (auto simp: ps i0)
  show ?thesis
    using m ps fp
    by (simp add: removePlayerFromSession_def Let_def deleteSession_def update_conv'
         delete_update_same)
qed

lemma inv_remove:
  assumes inv: "registry_inv st" and r: "removePlayerFromSession st sock now = (b, st')"
  shows "registry_inv st'"
proof -
  consider (fail) "map_of (playerSessions st) sock = None \<or> map_of (playerSessions st) sock = Some []
       \<or> (\<exists>sid. map_of (playerSessions st) sock = Some sid \<and> map_of (sessions st) sid = None)
       \<or> (\<exists>sid s. map_of (playerSessions st) sock = Some sid \<and> map_of (sessions st) sid = Some s
             \<and> findIndex (\<lambda>p. socketId p = sock) (players s) = None)"
    | (found) sid s i where "map_of (playerSessions st) sock = Some sid" "sid \<noteq> []"
        "map_of (sessions st) sid = Some s"
        "findIndex (\<lambda>p. socketId p = sock) (players s) = Some i"
    by (cases "map_of (playerSessions st) sock") (auto, metis not_Some_eq)
  then show ?thesis
  proof cases
    case fail
    from remove_unmapped[OF fail] r inv show ?thesis by simp
  next
    case found
    note m = found(1,2,3) and f = found(4)
    from findIndex_Some[OF f] have il: "i < length (players s)"
      and si: "socketId (players s ! i) = sock" by auto
    define rest where "rest = take i (players s) @ drop (Suc i) (players s)"
    from inv_sessionD[OF inv m(3)] have ok: "session_ok s" .
    have hc: "length (filter isHost rest) = 1 - (if isHost (players s ! i) then 1 else 0)"
      using filter_remove_nth[OF il, of isHost] ok
      by (simp add: rest_def session_ok_def hostCount_def)
    have lr: "length rest = length (players s) - 1"
      using length_remove_nth[OF il] by (simp add: rest_def)
    have others: "\<And>c. c \<noteq> sock \<Longrightarrow> c \<in> socketId ` set (players s) \<Longrightarrow> c \<in> socketId ` set rest"
      using set_remove_nth[OF il] si by (auto simp: rest_def)
    have repl: "registry_inv (st\<lparr>playerSessions := AList.delete sock (playerSessions st),
                   sessions := AList.update sid s' (sessions st)\<rparr>)"
      if ok': "session_ok s'" and hc': "hostCode s' = hostCode s"
        and sub: "socketId ` set rest \<subseteq> socketId ` set (players s')" for s'
    proof (rule registry_invI)
      show "distinct (map fst (sessions (st\<lparr>playerSessions := AList.delete sock (playerSessions st),
                   sessions := AList.update sid s' (sessions st)\<rparr>)))"
        "distinct (map fst (playerSessions (st\<lparr>playerSessions := AList.delete sock (playerSessions st),
                   sessions := AList.update sid s' (sessions st)\<rparr>)))"
        "distinct (map fst (hostCodes (st\<lparr>playerSessions := AList.delete sock (playerSessions st),
                   sessions := AList.update sid s' (sessions st)\<rparr>)))"
        using inv_distinct[OF inv] by (simp_all add: distinct_update distinct_delete)
    next
      fix sid' t
      assume "map_of (sessions (st\<lparr>playerSessions := AList.delete sock (playerSessions st),
                   sessions := AList.update sid s' (sessions st)\<rparr>)) sid' = Some t"
      then show "session_ok t" using ok' inv_sessionD[OF inv]
        by (auto simp: update_conv' split: if_splits)
    next
      fix c sid'
      assume "map_of (playerSessions (st\<lparr>playerSessions := AList.delete sock (playerSessions st),
                   sessions := AList.update sid s' (sessions st)\<rparr>)) c = Some sid'"
      then have cs: "c \<noteq> sock" and b: "map_of (playerSessions st) c = Some sid'"
        by (auto simp: delete_conv' split: if_splits)
      from inv_playerD[OF inv b] m(3) others[OF cs] sub
      show "sid' \<noteq> [] \<and> (\<exists>t. map_of (sessions (st\<lparr>playerSessions := AList.delete sock (playerSessions st),
                   sessions := AList.update sid s' (sessions st)\<rparr>)) sid' = Some t
            \<and> c \<in> socketId ` set (players t))"
        by (auto simp: update_conv')
    next
      fix code sid'
      assume "map_of (hostCodes (st\<lparr>playerSessions := AList.delete sock (playerSessions st),
                   sessions := AList.update sid s' (sessions st)\<rparr>)) code = Some sid'"
      then have b: "map_of (hostCodes st) code = Some sid'" by simp
      from inv_codeD[OF inv b] m(3) hc'
      show "sid' \<noteq> [] \<and> set code \<subseteq> set chars
        \<and> (\<exists>t. map_of (sessions (st\<lparr>playerSessions := AList.delete sock (playerSessions st),
                   sessions := AList.update sid s' (sessions st)\<rparr>)) sid' = Some t \<and> hostCode t = code)"
        by (auto simp: update_conv')
    qed
    show ?thesis
    proof (cases "isHost (players s ! i)")
      case False
      from remove_nonhost[OF m f False] r
      have st': "st' = st\<lparr>playerSessions := AList.delete sock (playerSessions st),
             sessions := AList.update sid (s\<lparr>players := rest, lastActivity := now\<rparr>) (sessions st)\<rparr>"
        by (auto simp: rest_def registry_update_swap)
      from hc False have "length (filter isHost rest) = 1" by simp
      moreover from this have "rest \<noteq> []" by auto
      ultimately have "session_ok (s\<lparr>players := rest, lastActivity := now\<rparr>)"
        using ok lr by (auto simp: session_ok_def hostCount_def)
      from repl[OF this] show ?thesis by (simp add: st')
    next
      case True
      with hc have nohost: "filter isHost rest = []" by simp
      show ?thesis
      proof (cases rest)
        case Nil
        from remove_host_last[OF m f True] Nil r
        have st': "st' = st\<lparr>playerSessions := AList.delete sock (playerSessions st),
             hostCodes := AList.delete (hostCode s) (hostCodes st),
             sessions := AList.delete sid (sessions st)\<rparr>"
          by (simp add: rest_def)
        show ?thesis
        proof (rule registry_invI)
          show "distinct (map fst (sessions st'))" "distinct (map fst (playerSessions st'))"
            "distinct (map fst (hostCodes st'))"
            using inv_distinct[OF inv] by (simp_all add: st' distinct_delete)
        next
          fix sid' t assume "map_of (sessions st') sid' = Some t"
          then show "session_ok t" using inv_sessionD[OF inv]
            by (auto simp: st' delete_conv' split: if_splits)
        next
          fix c sid' assume "map_of (playerSessions st') c = Some sid'"
          then have cs: "c \<noteq> sock" and b: "map_of (playerSessions st) c = Some sid'"
            by (auto simp: st' delete_conv' split: if_splits)
          from inv_playerD[OF inv b] m(3) others[OF cs] Nil
          show "sid' \<noteq> [] \<and> (\<exists>t. map_of (sessions st') sid' = Some t
              \<and> c \<in> socketId ` set (players t))"
            by (auto simp: st' delete_conv')
        next
          fix code sid' assume "map_of (hostCodes st') code = Some sid'"
          then have cs: "code \<noteq> hostCode s" and b: "map_of (hostCodes st) code = Some sid'"
            by (auto simp: st' delete_conv' split: if_splits)
          from inv_codeD[OF inv b] m(3) cs
          show "sid' \<noteq> [] \<and> set code \<subseteq> set chars
            \<and> (\<exists>t. map_of (sessions st') sid' = Some t \<and> hostCode t = code)"
            by (auto simp: st' delete_conv')
        qed
      next
        case (Cons p0 others)
        from remove_host_transfer[OF m f True] Cons r
        have st': "st' = st\<lparr>playerSessions := AList.delete sock (playerSessions st),
             sessions := AList.update sid
               (s\<lparr>lastActivity := now, players := p0\<lparr>isHost := True\<rparr> # others,
                  hostId := socketId p0, hostName := player_name p0\<rparr>) (sessions st)\<rparr>"
          by (simp add: rest_def)
        from nohost Cons have "filter isHost others = []" by (auto split: if_splits)
        then have "session_ok (s\<lparr>lastActivity := now, players := p0\<lparr>isHost := True\<rparr> # others,
                  hostId := socketId p0, hostName := player_name p0\<rparr>)"
          using ok lr Cons by (auto simp: session_ok_def hostCount_def)
        from repl[OF this] Cons show ?thesis by (simp add: st')
      qed
    qed
  qed
qed

lemma map_list_update_same:
  "i < length xs \<Longrightarrow> h (f (xs ! i)) = h (xs ! i) \<Longrightarrow> map h (xs[i := f (xs ! i)]) = map h xs"
  by (simp add: map_update list_update_same_conv)

lemma filter_length_cong:
  "map P xs = map P ys \<Longrightarrow> length (filter P xs) = length (filter P ys)"
proof (induction xs arbitrary: ys)
  case Nil
  then show ?case by simp
next
  case (Cons x xs)
  then obtain y ys' where "ys = y # ys'" by (cases ys) auto
  with Cons show ?case by auto
qed

lemma modifyPlayer_cases:
  "modifyPlayer st sock f g = st \<or>
   (\<exists>sid s i. map_of (sessions st) sid = Some s
      \<and> findIndex (\<lambda>p. socketId p = sock) (players s) = Some i
      \<and> modifyPlayer st sock f g = st\<lparr>sessions := AList.update sid
            (g (s\<lparr>players := (players s)[i := f (players s ! i)]\<rparr>)) (sessions st)\<rparr>)"
proof (cases "map_of (playerSessions st) sock")
  case None
  then show ?thesis by (simp add: modifyPlayer_def)
next
  case (Some sid)
  show ?thesis
  proof (cases "sid = [] \<or> map_of (sessions st) sid = None")
    case True
    with Some show ?thesis by (auto simp: modifyPlayer_def)
  next
    case False
    then obtain s where s: "sid \<noteq> []" "map_of (sessions st) sid = Some s" by auto
    show ?thesis
    proof (cases "findIndex (\<lambda>p. socketId p = sock) (players s)")
      case None
      with Some s show ?thesis by (simp add: modifyPlayer_def)
    next
      case (Some i)
      with \<open>map_of (playerSessions st) sock = Some sid\<close> s
      have "modifyPlayer st sock f g = st\<lparr>sessions := AList.update sid
            (g (s\<lparr>players := (players s)[i := f (players s ! i)]\<rparr>)) (sessions st)\<rparr>"
        by (simp add: modifyPlayer_def)
      with s Some show ?thesis by blast
    qed
  qed
qed

lemma inv_modifyPlayer:
  assumes inv: "registry_inv st"
    and f: "\<And>p. socketId (f p) = socketId p \<and> isHost (f p) = isHost p"
    and g: "\<And>s. players (g s) = players s \<and> hostCode (g s) = hostCode s
              \<and> maxPlayers (g s) = maxPlayers s"
  shows "registry_inv (modifyPlayer st sock f g)"
proof -
  consider (same) "modifyPlayer st sock f g = st"
    | (upd) sid s i where "map_of (sessions st) sid = Some s"
        "findIndex (\<lambda>p. socketId p = sock) (players s) = Some i"
        "modifyPlayer st sock f g = st\<lparr>sessions := AList.update sid
            (g (s\<lparr>players := (players s)[i := f (players s ! i)]\<rparr>)) (sessions st)\<rparr>"
    using modifyPlayer_cases[of st sock f g] by blast
  then show ?thesis
  proof cases
    case same
    with inv show ?thesis by simp
  next
    case upd
    from findIndex_Some[OF upd(2)] have il: "i < length (players s)" by simp
    let ?ps = "(players s)[i := f (players s ! i)]"
    have mh: "map isHost ?ps = map isHost (players s)"
      by (rule map_list_update_same[OF il]) (simp add: f)
    have ms: "map socketId ?ps = map socketId (players s)"
      by (rule map_list_update_same[OF il]) (simp add: f)
    from inv_sessionD[OF inv upd(1)] il filter_length_cong[OF mh]
    have ok: "session_ok (g (s\<lparr>players := ?ps\<rparr>))"
      by (auto simp: session_ok_def hostCount_def g)
    have "socketId ` set (players s) = socketId ` set ?ps"
      using arg_cong[OF ms, of set] by simp
    then have "registry_inv (st\<lparr>sessions := AList.update sid
            (g (s\<lparr>players := ?ps\<rparr>)) (sessions st)\<rparr>)"
      by (intro inv_update_session[OF inv upd(1) ok]) (simp_all add: g)
    with upd(3) show ?thesis by simp
  qed
qed

lemma inv_cleanup_aux:
  "registry_inv st \<Longrightarrow> registry_inv (foldl (\<lambda>st' sessionId. snd (deleteSession st' sessionId)) st ids)"
proof (induction ids arbitrary: st)
  case Nil
  then show ?case by simp
next
  case (Cons a ids)
  have "registry_inv (snd (deleteSession st a))"
    using inv_delete[OF Cons.prems, of a] by (cases "deleteSession st a") simp
  from Cons.IH[OF this] show ?case by simp
qed

lemma inv_cleanup: "registry_inv st \<Longrightarrow> registry_inv (cleanupInactiveSessions st now)"
  by (simp add: cleanupInactiveSessions_def Let_def inv_cleanup_aux)

lemma inv_updateGameState:
  assumes inv: "registry_inv st" and u: "updateGameState st sid upd now = (b, st')"
  shows "registry_inv st'"
proof (cases "map_of (sessions st) sid")
  case None
  with u inv show ?thesis by (simp add: updateGameState_def)
next
  case (Some s)
  with u have st': "st' = st\<lparr>sessions := AList.update sid
             (s\<lparr>gameState := mergeGameState (gameState s) upd, lastActivity := now\<rparr>)
             (sessions st)\<rparr>"
    by (auto simp: updateGameState_def)
  from inv_sessionD[OF inv Some]
  have "session_ok (s\<lparr>gameState := mergeGameState (gameState s) upd, lastActivity := now\<rparr>)"
    by (simp add: session_ok_def hostCount_def)
  from inv_update_session[OF inv Some this] show ?thesis by (simp add: st')
qed

lemma inv_addHarvestedResource:
  assumes inv: "registry_inv st" and u: "addHarvestedResource st sid rid now = (b, st')"
  shows "registry_inv st'"
proof (cases "map_of (sessions st) sid")
  case None
  with u inv show ?thesis by (simp add: addHarvestedResource_def)
next
  case (Some s)
  let ?s' = "s\<lparr>gameState := (gameState s)
                 \<lparr>harvestedResources := harvestedResources (gameState s) @ [rid]\<rparr>,
               lastActivity := now\<rparr>"
  from Some u have st': "st' = st \<or> st' = st\<lparr>sessions := AList.update sid ?s' (sessions st)\<rparr>"
    by (auto simp: addHarvestedResource_def split: if_splits)
  from inv_sessionD[OF inv Some] have "session_ok ?s'"
    by (simp add: session_ok_def hostCount_def)
  from inv_update_session[OF inv Some this] st' inv show ?thesis by auto
qed

lemma inv_addDefeatedEnemy:
  assumes inv: "registry_inv st" and u: "addDefeatedEnemy st sid eid now = (b, st')"
  shows "registry_inv st'"
proof (cases "map_of (sessions st) sid")
  case None
  with u inv show ?thesis by (simp add: addDefeatedEnemy_def)
next
  case (Some s)
  let ?s' = "s\<lparr>gameState := (gameState s)
                 \<lparr>defeatedEnemies := defeatedEnemies (gameState s) @ [eid]\<rparr>,
               lastActivity := now\<rparr>"
  from Some u have st': "st' = st \<or> st' = st\<lparr>sessions := AList.update sid ?s' (sessions st)\<rparr>"
    by (auto simp: addDefeatedEnemy_def split: if_splits)
  from inv_sessionD[OF inv Some] have "session_ok ?s'"
    by (simp add: session_ok_def hostCount_def)
  from inv_update_session[OF inv Some this] st' inv show ?thesis by auto
qed

lemma inv_init: "registry_inv newRegistry"
  by (simp add: registry_inv_def newRegistry_def)

lemma reachable_inv: "reachable st \<Longrightarrow> registry_inv st"
proof (induction rule: reachable.induct)
  case r_init
  show ?case by (rule inv_init)
next
  case (r_create st now sidRnd sock nm draws seed res st')
  then show ?case using inv_create by blast
next
  case (r_join st sock code nm now idRnd jres st')
  then show ?case using inv_join by blast
next
  case (r_remove st sock now b st')
  then show ?case using inv_remove by blast
next
  case (r_delete st sessionId b st')
  then show ?case using inv_delete by blast
next
  case (r_activity st sock now)
  then show ?case unfolding updatePlayerActivity_def by (intro inv_modifyPlayer) simp_all
next
  case (r_position st sock pos now)
  then show ?case unfolding updatePlayerPosition_def by (intro inv_modifyPlayer) simp_all
next
  case (r_inventory st sock inv now)
  then show ?case unfolding updatePlayerInventory_def by (intro inv_modifyPlayer) simp_all
next
  case (r_stats st sock sts now)
  then show ?case unfolding updatePlayerStats_def by (intro inv_modifyPlayer) simp_all
next
  case (r_cleanup st now)
  then show ?case by (simp add: inv_cleanup)
next
  case (r_gameState st sessionId upd now b st')
  then show ?case using inv_updateGameState by blast
next
  case (r_harvested st sessionId resourceId now b st')
  then show ?case using inv_addHarvestedResource by blast
next
  case (r_defeated st sessionId enemyId now b st')
  then show ?case using inv_addDefeatedEnemy by blast
qed

lemma inv_session_memD: "registry_inv st \<Longrightarrow> (sid, s) \<in> set (sessions st) \<Longrightarrow> session_ok s"
  using inv_sessionD[of st sid s] inv_distinct[of st] by simp

lemma inv_no_reference:
  assumes inv: "registry_inv st" and gone: "map_of (sessions st) sid = None"
  shows "(\<forall>c. map_of (playerSessions st) c \<noteq> Some sid)
       \<and> (\<forall>code. map_of (hostCodes st) code \<noteq> Some sid)"
  using inv_playerD[OF inv] inv_codeD[OF inv] gone by fastforce

lemma deleteSession_absent: "map_of (sessions (snd (deleteSession st sid))) sid = None"
  by (auto simp: deleteSession_def delete_conv' split: option.splits)

text \<open>Enough draws: some attempt within the draws yields an unused code.\<close>

lemma generateHostCode_enough:
  "6 * n + 6 \<le> length draws \<Longrightarrow>
   map_of codes (hostCodeOf (take 6 (drop (6 * n) draws))) = None \<Longrightarrow>
   \<exists>code. generateHostCode codes draws = Some code"
proof (induction n arbitrary: draws)
  case 0
  then show ?case by (subst generateHostCode.simps) (simp add: Let_def)
next
  case (Suc n)
  have "6 * n + 6 \<le> length (drop 6 draws)" using Suc.prems(1) by simp
  moreover have "map_of codes (hostCodeOf (take 6 (drop (6 * n) (drop 6 draws)))) = None"
    using Suc.prems(2) by (simp add: add.commute)
  ultimately obtain code where "generateHostCode codes (drop 6 draws) = Some code"
    using Suc.IH by blast
  moreover have "\<not> length draws < 6" using Suc.prems(1) by simp
  ultimately show ?case by (subst generateHostCode.simps) (simp add: Let_def)
qed

lemma chars_not_lowerCase: "ch \<in> set chars \<Longrightarrow> ch \<notin> set lowerCaseLetters"
  by (auto simp: chars_def lowerCaseLetters_def)

section \<open>Harvesting and defeating: what one call does\<close>

lemma harvest_accepted:
  assumes "map_of (worldStates gws) sid = Some ws" "map_of (resources ws) rid = Some r"
    "remainingUses r > 0" "\<not> isRespawning r"
  shows "harvestResource gws sid rid pid now =
    (Harvested (getResourceItem (res_type r)),
     gws\<lparr>worldStates := AList.update sid
        (let r' = r\<lparr>remainingUses := remainingUses r - 1, lastHarvestedTime := now,
                     harvestedBy := pid\<rparr>;
             ws1 = ws\<lparr>resources := AList.update rid r' (resources ws)\<rparr>
         in if remainingUses r - 1 \<le> 0 then scheduleResourceRespawn ws1 rid now else ws1)
        (worldStates gws)\<rparr>)"
  using assms by (simp add: harvestResource_def Let_def)

lemma harvest_depleted:
  assumes "map_of (worldStates gws) sid = Some ws" "map_of (resources ws) rid = Some r"
    "remainingUses r \<le> 0"
  shows "harvestResource gws sid rid pid now = (HarvestRejected ''Resource is depleted'', gws)"
  using assms by (simp add: harvestResource_def)

lemma schedule_respawn:
  assumes "map_of (resources ws) rid = Some r"
  shows "scheduleResourceRespawn ws rid now =
     ws\<lparr>resources := AList.update rid (r\<lparr>isRespawning := True\<rparr>) (resources ws),
        eventQueue := eventQueue ws @
          [\<lparr>event_id = ''respawn_'' @ rid, event_type = resource_respawn,
            scheduledTime = jsPlus (of_int now)
              (jsDivide (respawnTime r) (of_int (playerCount ws) * RESOURCE_RESPAWN_MULTIPLIER)),
            event_data = RespawnData rid, processed = False\<rparr>]\<rparr>"
  using assms by (simp add: scheduleResourceRespawn_def Let_def)

lemma harvest_last_unit:
  assumes ws: "map_of (worldStates gws) sid = Some ws" and r: "map_of (resources ws) rid = Some r"
    and one: "remainingUses r = 1" and nr: "\<not> isRespawning r"
  shows "harvestResource gws sid rid pid now =
    (Harvested (getResourceItem (res_type r)),
     gws\<lparr>worldStates := AList.update sid
        (ws\<lparr>resources := AList.update rid
               (r\<lparr>remainingUses := 0, lastHarvestedTime := now, harvestedBy := pid,
                  isRespawning := True\<rparr>) (resources ws),
            eventQueue := eventQueue ws @
              [\<lparr>event_id = ''respawn_'' @ rid, event_type = resource_respawn,
                scheduledTime = jsPlus (of_int now)
                  (jsDivide (respawnTime r)
                     (of_int (playerCount ws) * RESOURCE_RESPAWN_MULTIPLIER)),
                event_data = RespawnData rid, processed = False\<rparr>]\<rparr>)
        (worldStates gws)\<rparr>)"
proof -
  let ?r' = "r\<lparr>remainingUses := remainingUses r - 1, lastHarvestedTime := now, harvestedBy := pid\<rparr>"
  let ?ws1 = "ws\<lparr>resources := AList.update rid ?r' (resources ws)\<rparr>"
  have "map_of (resources ?ws1) rid = Some ?r'" by (simp add: update_conv')
  from schedule_respawn[OF this, of now] one
  have "scheduleResourceRespawn ?ws1 rid now =
     ws\<lparr>resources := AList.update rid
               (r\<lparr>remainingUses := 0, lastHarvestedTime := now, harvestedBy := pid,
                  isRespawning := True\<rparr>) (resources ws),
        eventQueue := eventQueue ws @
              [\<lparr>event_id = ''respawn_'' @ rid, event_type = resource_respawn,
                scheduledTime = jsPlus (of_int now)
                  (jsDivide (respawnTime r)
                     (of_int (playerCount ws) * RESOURCE_RESPAWN_MULTIPLIER)),
                event_data = RespawnData rid, processed = False\<rparr>]\<rparr>"
    by simp
  with harvest_accepted[OF ws r _ nr, of pid now] one show ?thesis by (simp add: Let_def)
qed

lemma harvest_not_last:
  assumes ws: "map_of (worldStates gws) sid = Some ws" and r: "map_of (resources ws) rid = Some r"
    and more: "remainingUses r > 1" and nr: "\<not> isRespawning r"
  shows "harvestResource gws sid rid pid now =
    (Harvested (getResourceItem (res_type r)),
     gws\<lparr>worldStates := AList.update sid
        (ws\<lparr>resources := AList.update rid
               (r\<lparr>remainingUses := remainingUses r - 1, lastHarvestedTime := now,
                  harvestedBy := pid\<rparr>) (resources ws)\<rparr>)
        (worldStates gws)\<rparr>)"
  using harvest_accepted[OF ws r _ nr, of pid now] more by (simp add: Let_def)

lemma three_harvests_then_depleted:
  assumes ws: "map_of (worldStates gws) sid = Some ws" and r: "map_of (resources ws) rid = Some r"
    and three: "remainingUses r = 3" and nr: "\<not> isRespawning r"
  shows "\<exists>i1 g1 i2 g2 i3 g3 ws3 r3.
           harvestResource gws sid rid p t1 = (Harvested i1, g1)
         \<and> harvestResource g1 sid rid p t2 = (Harvested i2, g2)
         \<and> harvestResource g2 sid rid p t3 = (Harvested i3, g3)
         \<and> map_of (worldStates g3) sid = Some ws3 \<and> map_of (resources ws3) rid = Some r3
         \<and> remainingUses r3 = 0 \<and> isRespawning r3
         \<and> harvestResource g3 sid rid q t4 = (HarvestRejected ''Resource is depleted'', g3)"
proof -
  let ?it = "getResourceItem (res_type r)"
  let ?r1 = "r\<lparr>remainingUses := 2, lastHarvestedTime := t1, harvestedBy := p\<rparr>"
  let ?w1 = "ws\<lparr>resources := AList.update rid ?r1 (resources ws)\<rparr>"
  let ?g1 = "gws\<lparr>worldStates := AList.update sid ?w1 (worldStates gws)\<rparr>"
  have h1: "harvestResource gws sid rid p t1 = (Harvested ?it, ?g1)"
    using harvest_not_last[OF ws r _ nr, of p t1] three by simp
  have w1: "map_of (worldStates ?g1) sid = Some ?w1" and r1: "map_of (resources ?w1) rid = Some ?r1"
    by (simp_all add: update_conv')
  let ?r2 = "r\<lparr>remainingUses := 1, lastHarvestedTime := t2, harvestedBy := p\<rparr>"
  let ?w2 = "ws\<lparr>resources := AList.update rid ?r2 (resources ws)\<rparr>"
  let ?g2 = "gws\<lparr>worldStates := AList.update sid ?w2 (worldStates gws)\<rparr>"
  have h2: "harvestResource ?g1 sid rid p t2 = (Harvested ?it, ?g2)"
    using harvest_not_last[OF w1 r1, of p t2] nr by simp
  have w2: "map_of (worldStates ?g2) sid = Some ?w2" and r2: "map_of (resources ?w2) rid = Some ?r2"
    by (simp_all add: update_conv')
  obtain g3 where h3: "harvestResource ?g2 sid rid p t3 = (Harvested ?it, g3)"
    and g3: "g3 = ?g2\<lparr>worldStates := AList.update sid
        (?w2\<lparr>resources := AList.update rid
               (?r2\<lparr>remainingUses := 0, lastHarvestedTime := t3, harvestedBy := p,
                  isRespawning := True\<rparr>) (resources ?w2),
            eventQueue := eventQueue ?w2 @
              [\<lparr>event_id = ''respawn_'' @ rid, event_type = resource_respawn,
                scheduledTime = jsPlus (of_int t3)
                  (jsDivide (respawnTime ?r2)
                     (of_int (playerCount ?w2) * RESOURCE_RESPAWN_MULTIPLIER)),
                event_data = RespawnData rid, processed = False\<rparr>]\<rparr>)
        (worldStates ?g2)\<rparr>"
    using harvest_last_unit[OF w2 r2, of p t3] nr by simp
  let ?r3 = "?r2\<lparr>remainingUses := 0, lastHarvestedTime := t3, harvestedBy := p,
                  isRespawning := True\<rparr>"
  obtain ws3 where w3: "map_of (worldStates g3) sid = Some ws3"
    and r3: "map_of (resources ws3) rid = Some ?r3"
    by (simp add: g3 update_conv')
  have h4: "harvestResource g3 sid rid q t4 = (HarvestRejected ''Resource is depleted'', g3)"
    by (rule harvest_depleted[OF w3 r3]) simp
  from h1 h2 h3 w3 r3 h4 show ?thesis
    by (intro exI[of _ ?it] exI[of _ ?g1] exI[of _ ?g2] exI[of _ g3] exI[of _ ws3]
          exI[of _ ?r3]) simp
qed

lemma enemy_update_same: "\<not> isAlive e \<Longrightarrow> health e = 0 \<Longrightarrow> e\<lparr>isAlive := False, health := 0\<rparr> = e"
  by (cases e) simp

lemma removeEnemy_dead:
  assumes ws: "map_of (worldStates gws) sid = Some ws" and e: "map_of (enemies ws) eid = Some e"
    and dead: "\<not> isAlive e" "health e = 0"
  shows "removeEnemy gws sid eid now =
     (True, gws\<lparr>removalTimers := removalTimers gws @ [(now + 30000, sid, eid)]\<rparr>)"
proof -
  have "AList.update eid e (enemies ws) = enemies ws" using e by (rule update_triv)
  then have "ws\<lparr>enemies := AList.update eid e (enemies ws)\<rparr> = ws" by simp
  moreover have "AList.update sid ws (worldStates gws) = worldStates gws"
    using ws by (rule update_triv)
  ultimately show ?thesis
    using ws e enemy_update_same[OF dead] by (simp add: removeEnemy_def Let_def)
qed

section \<open>Event ticks and the wait for a respawn\<close>




































section \<open>Facts about the concrete session\<close>

lemma showInt_1000: "showInt 1000 = ''1000''"
  by (simp add: showInt_def showNat.simps decimalDigits_def)

lemma ariaSessionId_eq: "ariaSessionId = ''session_1000_k3x9q2m1z''"
  by (simp add: ariaSessionId_def generateSessionId_def showInt_1000)

lemma hostCodeOf_demo: "hostCodeOf [23, 26, 11, 27, 2, 28] = ''X0L1C2''"
  by code_simp


lemma ariaRegistry_eq:
  "ariaRegistry = \<lparr>sessions = [(''session_1000_k3x9q2m1z'',
       \<lparr>session_id = ''session_1000_k3x9q2m1z'', hostCode = ''X0L1C2'', hostId = ''sock_aria'',
        hostName = ''Aria'',
        players = [\<lparr>player_id = ''player_1000'', socketId = ''sock_aria'', player_name = ''Aria'',
                    joinedAt = 1000, lastSeen = 1000, position = None, level = 1, isHost = True,
                    inventory = None, stats = None\<rparr>],
        maxPlayers = 8, isPublic = False, createdAt = 1000, lastActivity = 1000,
        worldSeed = 424242,
        gameState = \<lparr>worldTime = 0, gs_season = ''spring'', harvestedResources = [],
                  defeatedEnemies = [], sharedInventory = [], gs_economyState = JObj []\<rparr>\<rparr>)],
     playerSessions = [(''sock_aria'', ''session_1000_k3x9q2m1z'')],
     hostCodes = [(''X0L1C2'', ''session_1000_k3x9q2m1z'')]\<rparr>"
  by (simp add: ariaRegistry_def createSession_def newRegistry_def MAX_SESSIONS_def
        generateHostCode.simps hostCodeOf_demo Let_def generateSessionId_def showInt_1000
        MAX_PLAYERS_PER_SESSION_def)


lemma reachable_ariaRegistry: "reachable ariaRegistry"
proof -
  have c: "createSession newRegistry ''sock_aria'' ''Aria'' 1000 ''k3x9q2m1z''
             [23, 26, 11, 27, 2, 28] 424242 \<noteq> None"
    by (simp add: createSession_def newRegistry_def MAX_SESSIONS_def generateHostCode.simps
          hostCodeOf_demo Let_def)
  then obtain res st' where e: "createSession newRegistry ''sock_aria'' ''Aria'' 1000 ''k3x9q2m1z''
             [23, 26, 11, 27, 2, 28] 424242 = Some (res, st')" by auto
  then have "ariaRegistry = st'" by (simp add: ariaRegistry_def)
  moreover have "reachable st'"
    by (rule r_create[OF r_init _ e]) (simp add: newRegistry_def)
  ultimately show ?thesis by simp
qed

lemma showInt_2000: "showInt 2000 = ''2000''"
  by (simp add: showInt_def showNat.simps decimalDigits_def)

lemma ariaBramRegistry_eq:
  "ariaBramRegistry = \<lparr>sessions = [(''session_1000_k3x9q2m1z'', ariaBramSession)],
     playerSessions = [(''sock_aria'', ''session_1000_k3x9q2m1z''),
                       (''sock_bram'', ''session_1000_k3x9q2m1z'')],
     hostCodes = [(''X0L1C2'', ''session_1000_k3x9q2m1z'')]\<rparr>"
  by (simp add: ariaBramRegistry_def ariaRegistry_eq joinSession_def Let_def showInt_2000
        ariaBramSession_def ariaPlayer_def bramPlayer_def)

lemma reachable_ariaBramRegistry: "reachable ariaBramRegistry"
  unfolding ariaBramRegistry_def
  by (rule r_join[OF reachable_ariaRegistry]) (rule surjective_pairing)

section \<open>Facts about the concrete world\<close>

lemma showInt_0: "showInt 0 = ''0''"
  by (simp add: showInt_def showNat.simps decimalDigits_def)

lemma showNat_0_1: "showNat 0 = ''0''" "showNat (Suc 0) = ''1''"
  by (simp_all add: showNat.simps decimalDigits_def)

lemma ariaWorld0_eq:
  "ariaWorld0 = \<lparr>worldStates = [(''session_1000_k3x9q2m1z'',
       ariaWorldState\<lparr>loadedChunks := [], resources := []\<rparr>)], removalTimers = []\<rparr>"
  by (simp add: ariaWorld0_def createWorldState_def newWorldService_def Let_def
        initializeEconomy_def baseItems_def getBaseItemPrice_def scheduleInitialEvents_def
        ariaWorldState_def)

lemma ariaWorld_eq:
  "ariaWorld = \<lparr>worldStates = [(''session_1000_k3x9q2m1z'', ariaWorldState)],
                 removalTimers = []\<rparr>"
  by (simp add: ariaWorld_def ariaWorld0_eq generateChunkResources_def Let_def showInt_0
        generateResource_def getResourceMaxUses_def getResourceRespawnTime_def showNat_0_1
        ariaWorldState_def woodR1_def herbR2_def upt_rec)

lemma ariaWorld_lookup:
  "map_of (worldStates ariaWorld) ''session_1000_k3x9q2m1z'' = Some ariaWorldState"
  "map_of (resources ariaWorldState) ''resource_session_1000_k3x9q2m1z_0_0_0'' = Some woodR1"
  "map_of (resources ariaWorldState) ''resource_session_1000_k3x9q2m1z_0_0_1'' = Some herbR2"
  by (simp_all add: ariaWorld_eq ariaWorldState_def)

lemma getPlayerSession_ariaBram:
  "getPlayerSession ariaBramRegistry ''sock_aria'' = Some ariaBramSession"
  "getPlayerSession ariaBramRegistry ''sock_bram'' = Some ariaBramSession"
  "session_id ariaBramSession = ''session_1000_k3x9q2m1z''"
  by (simp_all add: getPlayerSession_def ariaBramRegistry_eq ariaBramSession_def)

lemma threeHarvests_depleted:
  "harvestResource threeHarvests ''session_1000_k3x9q2m1z''
     ''resource_session_1000_k3x9q2m1z_0_0_0'' (Some ''sock_bram'') 6000
     = (HarvestRejected ''Resource is depleted'', threeHarvests)"
proof -
  have three: "remainingUses woodR1 = 3" and nr: "\<not> isRespawning woodR1"
    by (simp_all add: woodR1_def)
  from three_harvests_then_depleted[OF ariaWorld_lookup(1) ariaWorld_lookup(2) three nr,
      of "Some ''sock_aria''" 3000 4000 5000 "Some ''sock_bram''" 6000]
  show ?thesis unfolding threeHarvests_def by force
qed

lemma showInt_2500: "showInt 2500 = ''2500''"
  by (simp add: showInt_def showNat.simps decimalDigits_def)

lemma goblinE1_id: "enemy_id goblinE1 = ''enemy_session_1000_k3x9q2m1z_2500_q1w2e3r4t''"
  by (simp add: goblinE1_def generateEnemy_def showInt_2500)

lemma enemyWorld_eq:
  "enemyWorld = \<lparr>worldStates = [(''session_1000_k3x9q2m1z'',
       ariaWorldState\<lparr>enemies := [(''enemy_session_1000_k3x9q2m1z_2500_q1w2e3r4t'', goblinE1)]\<rparr>)],
     removalTimers = []\<rparr>"
proof -
  have "getChunkEnemies ariaWorld ''session_1000_k3x9q2m1z'' ''0,0'' = []"
    by (simp add: getChunkEnemies_def ariaWorld_lookup) (simp add: ariaWorldState_def)
  moreover have "enemies ariaWorldState = []" by (simp add: ariaWorldState_def)
  ultimately show ?thesis
    unfolding enemyWorld_def
    by (simp add: generateChunkEnemies_def ariaWorld_lookup Let_def showInt_0
          MAX_ENEMIES_PER_CHUNK_def goblinE1_def[symmetric] goblinE1_id)
       (simp add: ariaWorld_eq)
qed

lemma firstDefeat_eq:
  "firstDefeat =
     (\<lparr>worldStates = [(''session_1000_k3x9q2m1z'',
          ariaWorldState\<lparr>enemies :=
            [(''enemy_session_1000_k3x9q2m1z_2500_q1w2e3r4t'', deadGoblin)]\<rparr>)],
       removalTimers = [(37000, ''session_1000_k3x9q2m1z'',
                         ''enemy_session_1000_k3x9q2m1z_2500_q1w2e3r4t'')]\<rparr>,
      [\<lparr>room = ''session_1000_k3x9q2m1z'', sender = ''sock_aria'',
        message = EnemyDefeated ''enemy_session_1000_k3x9q2m1z_2500_q1w2e3r4t'' ''sock_aria''
                    (JNum 50) (JArr []) 7000\<rparr>])"
  by (simp add: firstDefeat_def on_enemy_defeated_def getPlayerSession_ariaBram enemyWorld_eq
        removeEnemy_def Let_def deadGoblin_def)

lemma deadGoblin_dead: "\<not> isAlive deadGoblin" "health deadGoblin = 0"
  by (simp_all add: deadGoblin_def)


section \<open>Joining a session\<close>

text \<open>
  Claim C5. In every reachable registry \<open>joinSession\<close> checks, in this order: an unknown
  join-code (\<open>Invalid session code\<close>), a session that already has 8 players
  (\<open>Session is full\<close>), a connection that is already mapped to a session
  (\<open>Player already in a session\<close>). Every rejection returns the registry unchanged. On
  success exactly one player, not a host, is appended to the session and \<open>lastActivity\<close>
  is set to the clock reading. No session of a reachable registry has more than 8 players.
\<close>

theorem joinSession_checks_in_order:
  assumes "reachable st"
  shows "(map_of (hostCodes st) code = None \<longrightarrow>
            joinSession st sock code nm now r = (JoinError ''Invalid session code'', st))
       \<and> (\<forall>sid. map_of (hostCodes st) code = Some sid \<longrightarrow>
            (\<exists>s. map_of (sessions st) sid = Some s \<and>
               (if length (players s) \<ge> 8
                then joinSession st sock code nm now r = (JoinError ''Session is full'', st)
                else if map_of (playerSessions st) sock \<noteq> None
                then joinSession st sock code nm now r
                       = (JoinError ''Player already in a session'', st)
                else \<exists>p. \<not> isHost p \<and> socketId p = sock \<and> player_name p = nm
                       \<and> joinSession st sock code nm now r
                           = (Joined (s\<lparr>players := players s @ [p], lastActivity := now\<rparr>),
                              st\<lparr>sessions := AList.update sid
                                     (s\<lparr>players := players s @ [p], lastActivity := now\<rparr>)
                                     (sessions st),
                                 playerSessions := AList.update sock sid (playerSessions st)\<rparr>))))
       \<and> (\<forall>sid s. map_of (sessions st) sid = Some s \<longrightarrow> length (players s) \<le> 8)"
proof (intro conjI allI impI)
  assume "map_of (hostCodes st) code = None"
  then show "joinSession st sock code nm now r = (JoinError ''Invalid session code'', st)"
    by (simp add: joinSession_def)
next
  fix sid assume c: "map_of (hostCodes st) code = Some sid"
  from inv_codeD[OF reachable_inv[OF assms] c] obtain s where
    ne: "sid \<noteq> []" and s: "map_of (sessions st) sid = Some s" by auto
  from inv_sessionD[OF reachable_inv[OF assms] s] have mp: "maxPlayers s = 8"
    by (simp add: session_ok_def)
  have "if length (players s) \<ge> 8
        then joinSession st sock code nm now r = (JoinError ''Session is full'', st)
        else if map_of (playerSessions st) sock \<noteq> None
        then joinSession st sock code nm now r = (JoinError ''Player already in a session'', st)
        else \<exists>p. \<not> isHost p \<and> socketId p = sock \<and> player_name p = nm
               \<and> joinSession st sock code nm now r
                   = (Joined (s\<lparr>players := players s @ [p], lastActivity := now\<rparr>),
                      st\<lparr>sessions := AList.update sid
                             (s\<lparr>players := players s @ [p], lastActivity := now\<rparr>)
                             (sessions st),
                         playerSessions := AList.update sock sid (playerSessions st)\<rparr>)"
  proof (cases "length (players s) \<ge> 8")
    case True
    with c ne s mp show ?thesis by (simp add: joinSession_def)
  next
    case False
    note room = False
    show ?thesis
    proof (cases "map_of (playerSessions st) sock")
      case (Some a)
      with c ne s mp room show ?thesis by (simp add: joinSession_def)
    next
      case None
      let ?p = "\<lparr>player_id = ''player_'' @ showInt now @ ''_'' @ r,
                      socketId = sock, player_name = nm, joinedAt = now,
                      lastSeen = now, position = None, level = 1, isHost = False,
                      inventory = None, stats = None\<rparr>"
      have "\<not> isHost ?p \<and> socketId ?p = sock \<and> player_name ?p = nm
               \<and> joinSession st sock code nm now r
                   = (Joined (s\<lparr>players := players s @ [?p], lastActivity := now\<rparr>),
                      st\<lparr>sessions := AList.update sid
                             (s\<lparr>players := players s @ [?p], lastActivity := now\<rparr>)
                             (sessions st),
                         playerSessions := AList.update sock sid (playerSessions st)\<rparr>)"
        using c ne s mp room None by (simp add: joinSession_def Let_def)
      then have "\<exists>p. \<not> isHost p \<and> socketId p = sock \<and> player_name p = nm
               \<and> joinSession st sock code nm now r
                   = (Joined (s\<lparr>players := players s @ [p], lastActivity := now\<rparr>),
                      st\<lparr>sessions := AList.update sid
                             (s\<lparr>players := players s @ [p], lastActivity := now\<rparr>)
                             (sessions st),
                         playerSessions := AList.update sock sid (playerSessions st)\<rparr>)"
        by (rule exI[of _ ?p])
      with room None show ?thesis by simp
    qed
  qed
  with s show "\<exists>s. map_of (sessions st) sid = Some s \<and>
       (if length (players s) \<ge> 8
        then joinSession st sock code nm now r = (JoinError ''Session is full'', st)
        else if map_of (playerSessions st) sock \<noteq> None
        then joinSession st sock code nm now r = (JoinError ''Player already in a session'', st)
        else \<exists>p. \<not> isHost p \<and> socketId p = sock \<and> player_name p = nm
               \<and> joinSession st sock code nm now r
                   = (Joined (s\<lparr>players := players s @ [p], lastActivity := now\<rparr>),
                      st\<lparr>sessions := AList.update sid
                             (s\<lparr>players := players s @ [p], lastActivity := now\<rparr>)
                             (sessions st),
                         playerSessions := AList.update sock sid (playerSessions st)\<rparr>))"
    by blast
next
  fix sid s assume "map_of (sessions st) sid = Some s"
  from inv_sessionD[OF reachable_inv[OF assms] this] show "length (players s) \<le> 8"
    by (simp add: session_ok_def)
qed

theorem joinSession_checks_in_order_witness:
  "reachable ariaRegistry
   \<and> map_of (hostCodes ariaRegistry) ''X0L1C2'' = Some ''session_1000_k3x9q2m1z''
   \<and> map_of (hostCodes ariaRegistry) ''QQQQQQ'' = None
   \<and> joinSession ariaRegistry ''sock_bram'' ''QQQQQQ'' ''Bram'' 2000 ''ab12c''
        = (JoinError ''Invalid session code'', ariaRegistry)
   \<and> joinSession ariaRegistry ''sock_aria'' ''X0L1C2'' ''Aria'' 2000 ''ab12c''
        = (JoinError ''Player already in a session'', ariaRegistry)
   \<and> (\<exists>s p. map_of (sessions ariaRegistry) ''session_1000_k3x9q2m1z'' = Some s
         \<and> \<not> isHost p \<and> socketId p = ''sock_bram''
         \<and> fst (joinSession ariaRegistry ''sock_bram'' ''X0L1C2'' ''Bram'' 2000 ''ab12c'')
             = Joined (s\<lparr>players := players s @ [p], lastActivity := 2000\<rparr>))"
proof -
  have c1: "map_of (hostCodes ariaRegistry) ''X0L1C2'' = Some ''session_1000_k3x9q2m1z''"
    and c2: "map_of (hostCodes ariaRegistry) ''QQQQQQ'' = None"
    and p1: "map_of (playerSessions ariaRegistry) ''sock_bram'' = None"
    and p2: "map_of (playerSessions ariaRegistry) ''sock_aria'' \<noteq> None"
    by (simp_all add: ariaRegistry_eq)
  have l: "\<And>s. map_of (sessions ariaRegistry) ''session_1000_k3x9q2m1z'' = Some s
             \<Longrightarrow> length (players s) = 1"
    by (auto simp: ariaRegistry_eq)
  note t = joinSession_checks_in_order[OF reachable_ariaRegistry]
  from t[of "''QQQQQQ''" "''sock_bram''" "''Bram''" 2000 "''ab12c''"] c2
  have a: "joinSession ariaRegistry ''sock_bram'' ''QQQQQQ'' ''Bram'' 2000 ''ab12c''
        = (JoinError ''Invalid session code'', ariaRegistry)" by blast
  from t[of "''X0L1C2''" "''sock_aria''" "''Aria''" 2000 "''ab12c''"] c1 p2 l
  have b: "joinSession ariaRegistry ''sock_aria'' ''X0L1C2'' ''Aria'' 2000 ''ab12c''
        = (JoinError ''Player already in a session'', ariaRegistry)" by force
  from t[of "''X0L1C2''" "''sock_bram''" "''Bram''" 2000 "''ab12c''"] c1 p1 l
  have c: "\<exists>s p. map_of (sessions ariaRegistry) ''session_1000_k3x9q2m1z'' = Some s
         \<and> \<not> isHost p \<and> socketId p = ''sock_bram''
         \<and> fst (joinSession ariaRegistry ''sock_bram'' ''X0L1C2'' ''Bram'' 2000 ''ab12c'')
             = Joined (s\<lparr>players := players s @ [p], lastActivity := 2000\<rparr>)" by force
  from reachable_ariaRegistry c1 c2 a b c show ?thesis by blast
qed

section \<open>Host identity\<close>

text \<open>
  Claim C3. In every reachable registry each session that has players has exactly one
  player with \<open>isHost = true\<close>. When the host leaves and players remain, the first
  remaining player in join order becomes the host, is the only host, and the session's
  \<open>hostId\<close> and \<open>hostName\<close> are set to that player.
\<close>

theorem exactly_one_host:
  assumes "reachable st"
  shows "(\<forall>(sid, s) \<in> set (sessions st). players s \<noteq> [] \<longrightarrow> length (filter isHost (players s)) = 1)
       \<and> (\<forall>sock sid s i p0 others now.
             map_of (playerSessions st) sock = Some sid \<longrightarrow> map_of (sessions st) sid = Some s \<longrightarrow>
             findIndex (\<lambda>p. socketId p = sock) (players s) = Some i \<longrightarrow>
             isHost (players s ! i) \<longrightarrow>
             take i (players s) @ drop (Suc i) (players s) = p0 # others \<longrightarrow>
               (\<exists>s'. fst (removePlayerFromSession st sock now)
                  \<and> map_of (sessions (snd (removePlayerFromSession st sock now))) sid = Some s'
                  \<and> players s' = p0\<lparr>isHost := True\<rparr> # others
                  \<and> filter isHost (players s') = [p0\<lparr>isHost := True\<rparr>]
                  \<and> hostId s' = socketId p0 \<and> hostName s' = player_name p0))"
proof (intro conjI allI impI)
  show "\<forall>(sid, s) \<in> set (sessions st). players s \<noteq> [] \<longrightarrow> length (filter isHost (players s)) = 1"
    using inv_session_memD[OF reachable_inv[OF assms]]
    by (auto simp: session_ok_def hostCount_def)
next
  fix sock sid s i p0 others now
  assume m: "map_of (playerSessions st) sock = Some sid" and s: "map_of (sessions st) sid = Some s"
    and f: "findIndex (\<lambda>p. socketId p = sock) (players s) = Some i"
    and h: "isHost (players s ! i)"
    and r: "take i (players s) @ drop (Suc i) (players s) = p0 # others"
  note inv = reachable_inv[OF assms]
  from inv_playerD[OF inv m] have ne: "sid \<noteq> []" by simp
  from findIndex_Some[OF f] have il: "i < length (players s)" by simp
  from inv_sessionD[OF inv s] have "length (filter isHost (players s)) = 1"
    by (simp add: session_ok_def hostCount_def)
  with filter_remove_nth[OF il, of isHost] h r
  have "length (filter isHost (p0 # others)) = 0" by simp
  then have nh: "filter isHost (p0\<lparr>isHost := True\<rparr> # others) = [p0\<lparr>isHost := True\<rparr>]"
    by (auto split: if_splits)
  let ?s' = "s\<lparr>lastActivity := now, players := p0\<lparr>isHost := True\<rparr> # others,
                  hostId := socketId p0, hostName := player_name p0\<rparr>"
  from remove_host_transfer[OF m ne s f h r, of now] nh
  have "fst (removePlayerFromSession st sock now)
      \<and> map_of (sessions (snd (removePlayerFromSession st sock now))) sid = Some ?s'
      \<and> players ?s' = p0\<lparr>isHost := True\<rparr> # others
      \<and> filter isHost (players ?s') = [p0\<lparr>isHost := True\<rparr>]
      \<and> hostId ?s' = socketId p0 \<and> hostName ?s' = player_name p0"
    by (simp add: update_conv')
  then show "\<exists>s'. fst (removePlayerFromSession st sock now)
      \<and> map_of (sessions (snd (removePlayerFromSession st sock now))) sid = Some s'
      \<and> players s' = p0\<lparr>isHost := True\<rparr> # others
      \<and> filter isHost (players s') = [p0\<lparr>isHost := True\<rparr>]
      \<and> hostId s' = socketId p0 \<and> hostName s' = player_name p0"
    by (rule exI[of _ ?s'])
qed

theorem exactly_one_host_witness:
  "reachable ariaBramRegistry
   \<and> (''session_1000_k3x9q2m1z'', ariaBramSession) \<in> set (sessions ariaBramRegistry)
   \<and> players ariaBramSession \<noteq> [] \<and> length (filter isHost (players ariaBramSession)) = 1
   \<and> (\<exists>s'. fst (removePlayerFromSession ariaBramRegistry ''sock_aria'' 3000)
         \<and> map_of (sessions (snd (removePlayerFromSession ariaBramRegistry ''sock_aria'' 3000)))
              ''session_1000_k3x9q2m1z'' = Some s'
         \<and> players s' = [bramPlayer\<lparr>isHost := True\<rparr>]
         \<and> hostId s' = ''sock_bram'' \<and> hostName s' = ''Bram'')"
proof -
  note t = exactly_one_host[OF reachable_ariaBramRegistry]
  have mem: "(''session_1000_k3x9q2m1z'', ariaBramSession) \<in> set (sessions ariaBramRegistry)"
    by (simp add: ariaBramRegistry_eq)
  have ne: "players ariaBramSession \<noteq> []" by (simp add: ariaBramSession_def)
  from t mem ne have one: "length (filter isHost (players ariaBramSession)) = 1" by blast
  have m: "map_of (playerSessions ariaBramRegistry) ''sock_aria'' = Some ''session_1000_k3x9q2m1z''"
    and s: "map_of (sessions ariaBramRegistry) ''session_1000_k3x9q2m1z'' = Some ariaBramSession"
    by (simp_all add: ariaBramRegistry_eq)
  have f: "findIndex (\<lambda>p. socketId p = ''sock_aria'') (players ariaBramSession) = Some 0"
    and h: "isHost (players ariaBramSession ! 0)"
    and r: "take 0 (players ariaBramSession) @ drop (Suc 0) (players ariaBramSession)
              = bramPlayer # []"
    by (simp_all add: ariaBramSession_def ariaPlayer_def)
  from t m s f h r
  have "\<exists>s'. fst (removePlayerFromSession ariaBramRegistry ''sock_aria'' 3000)
         \<and> map_of (sessions (snd (removePlayerFromSession ariaBramRegistry ''sock_aria'' 3000)))
              ''session_1000_k3x9q2m1z'' = Some s'
         \<and> players s' = bramPlayer\<lparr>isHost := True\<rparr> # []
         \<and> filter isHost (players s') = [bramPlayer\<lparr>isHost := True\<rparr>]
         \<and> hostId s' = socketId bramPlayer \<and> hostName s' = player_name bramPlayer"
    by blast
  then have "\<exists>s'. fst (removePlayerFromSession ariaBramRegistry ''sock_aria'' 3000)
         \<and> map_of (sessions (snd (removePlayerFromSession ariaBramRegistry ''sock_aria'' 3000)))
              ''session_1000_k3x9q2m1z'' = Some s'
         \<and> players s' = [bramPlayer\<lparr>isHost := True\<rparr>]
         \<and> hostId s' = ''sock_bram'' \<and> hostName s' = ''Bram''"
    by (auto simp: bramPlayer_def)
  with reachable_ariaBramRegistry mem ne one show ?thesis by blast
qed

section \<open>No empty sessions, no orphaned mappings\<close>

text \<open>
  Claim C4. In every reachable registry no session has an empty player list, and every
  entry of the socket map and of the join-code map names a session that is present.
  Leaving as the last player deletes the session in the same call, and after any
  \<open>deleteSession\<close> no socket and no join-code is mapped to the deleted session.
\<close>

theorem no_empty_session_no_orphan:
  assumes "reachable st"
  shows "(\<forall>(sid, s) \<in> set (sessions st). players s \<noteq> [])
       \<and> (\<forall>(c, sid) \<in> set (playerSessions st). map_of (sessions st) sid \<noteq> None)
       \<and> (\<forall>(code, sid) \<in> set (hostCodes st). map_of (sessions st) sid \<noteq> None)
       \<and> (\<forall>sock sid s now.
             map_of (playerSessions st) sock = Some sid \<longrightarrow> map_of (sessions st) sid = Some s \<longrightarrow>
             length (players s) = 1 \<longrightarrow>
               fst (removePlayerFromSession st sock now)
               \<and> map_of (sessions (snd (removePlayerFromSession st sock now))) sid = None
               \<and> (\<forall>c. map_of (playerSessions (snd (removePlayerFromSession st sock now))) c
                        \<noteq> Some sid)
               \<and> (\<forall>code. map_of (hostCodes (snd (removePlayerFromSession st sock now))) code
                        \<noteq> Some sid))
       \<and> (\<forall>sid. map_of (sessions (snd (deleteSession st sid))) sid = None
               \<and> (\<forall>c. map_of (playerSessions (snd (deleteSession st sid))) c \<noteq> Some sid)
               \<and> (\<forall>code. map_of (hostCodes (snd (deleteSession st sid))) code \<noteq> Some sid))"
proof -
  note inv = reachable_inv[OF assms]
  have a: "\<forall>(sid, s) \<in> set (sessions st). players s \<noteq> []"
    using inv_session_memD[OF inv] by (auto simp: session_ok_def)
  have b0: "map_of (sessions st) sid \<noteq> None" if "(c, sid) \<in> set (playerSessions st)" for c sid
  proof -
    from that inv_distinct[OF inv] have "map_of (playerSessions st) c = Some sid" by simp
    from inv_playerD[OF inv this] show ?thesis by auto
  qed
  then have b: "\<forall>(c, sid) \<in> set (playerSessions st). map_of (sessions st) sid \<noteq> None"
    by auto
  have c0: "map_of (sessions st) sid \<noteq> None" if "(code, sid) \<in> set (hostCodes st)" for code sid
  proof -
    from that inv_distinct[OF inv] have "map_of (hostCodes st) code = Some sid" by simp
    from inv_codeD[OF inv this] show ?thesis by auto
  qed
  then have c: "\<forall>(code, sid) \<in> set (hostCodes st). map_of (sessions st) sid \<noteq> None"
    by auto
  have d: "fst (removePlayerFromSession st sock now)
               \<and> map_of (sessions (snd (removePlayerFromSession st sock now))) sid = None
               \<and> (\<forall>c. map_of (playerSessions (snd (removePlayerFromSession st sock now))) c
                        \<noteq> Some sid)
               \<and> (\<forall>code. map_of (hostCodes (snd (removePlayerFromSession st sock now))) code
                        \<noteq> Some sid)"
    if m: "map_of (playerSessions st) sock = Some sid" and s: "map_of (sessions st) sid = Some s"
      and l: "length (players s) = 1" for sock sid s now
  proof -
    from inv_playerD[OF inv m] s have ne: "sid \<noteq> []" and mem: "sock \<in> socketId ` set (players s)"
      by auto
    from l obtain p where ps: "players s = [p]" by (cases "players s") auto
    with mem have sp: "socketId p = sock" by simp
    from inv_sessionD[OF inv s] ps have hp: "isHost p"
      by (auto simp: session_ok_def hostCount_def split: if_splits)
    have f: "findIndex (\<lambda>p. socketId p = sock) (players s) = Some 0" using ps sp by simp
    have rm: "removePlayerFromSession st sock now =
        (True, st\<lparr>playerSessions := AList.delete sock (playerSessions st),
             hostCodes := AList.delete (hostCode s) (hostCodes st),
             sessions := AList.delete sid (sessions st)\<rparr>)"
      by (rule remove_host_last[OF m ne s f]) (simp_all add: ps hp)
    have gone: "map_of (sessions (snd (removePlayerFromSession st sock now))) sid = None"
      by (simp add: rm delete_conv')
    have "registry_inv (snd (removePlayerFromSession st sock now))"
      using inv_remove[OF inv rm] by (simp add: rm)
    from inv_no_reference[OF this gone] gone rm show ?thesis by simp
  qed
  have e: "map_of (sessions (snd (deleteSession st sid))) sid = None
               \<and> (\<forall>c. map_of (playerSessions (snd (deleteSession st sid))) c \<noteq> Some sid)
               \<and> (\<forall>code. map_of (hostCodes (snd (deleteSession st sid))) code \<noteq> Some sid)" for sid
  proof -
    have "registry_inv (snd (deleteSession st sid))"
      using inv_delete[OF inv, of sid] by (cases "deleteSession st sid") simp
    from inv_no_reference[OF this deleteSession_absent] deleteSession_absent[of st sid]
    show ?thesis by simp
  qed
  from a b c d e show ?thesis by blast
qed

theorem no_empty_session_no_orphan_witness:
  "reachable ariaRegistry
   \<and> (''sock_aria'', ''session_1000_k3x9q2m1z'') \<in> set (playerSessions ariaRegistry)
   \<and> (''X0L1C2'', ''session_1000_k3x9q2m1z'') \<in> set (hostCodes ariaRegistry)
   \<and> map_of (sessions ariaRegistry) ''session_1000_k3x9q2m1z'' \<noteq> None
   \<and> fst (removePlayerFromSession ariaRegistry ''sock_aria'' 3000)
   \<and> map_of (sessions (snd (removePlayerFromSession ariaRegistry ''sock_aria'' 3000)))
        ''session_1000_k3x9q2m1z'' = None
   \<and> map_of (playerSessions (snd (removePlayerFromSession ariaRegistry ''sock_aria'' 3000)))
        ''sock_aria'' \<noteq> Some ''session_1000_k3x9q2m1z''
   \<and> map_of (hostCodes (snd (removePlayerFromSession ariaRegistry ''sock_aria'' 3000)))
        ''X0L1C2'' \<noteq> Some ''session_1000_k3x9q2m1z''"
proof -
  note t = no_empty_session_no_orphan[OF reachable_ariaRegistry]
  have m1: "(''sock_aria'', ''session_1000_k3x9q2m1z'') \<in> set (playerSessions ariaRegistry)"
    and m2: "(''X0L1C2'', ''session_1000_k3x9q2m1z'') \<in> set (hostCodes ariaRegistry)"
    by (simp_all add: ariaRegistry_eq)
  from t m1 have p: "map_of (sessions ariaRegistry) ''session_1000_k3x9q2m1z'' \<noteq> None" by blast
  then obtain s where s: "map_of (sessions ariaRegistry) ''session_1000_k3x9q2m1z'' = Some s"
    by blast
  then have l: "length (players s) = 1" by (auto simp: ariaRegistry_eq)
  have m: "map_of (playerSessions ariaRegistry) ''sock_aria'' = Some ''session_1000_k3x9q2m1z''"
    by (simp add: ariaRegistry_eq)
  from t m s l
  have "fst (removePlayerFromSession ariaRegistry ''sock_aria'' 3000)
   \<and> map_of (sessions (snd (removePlayerFromSession ariaRegistry ''sock_aria'' 3000)))
        ''session_1000_k3x9q2m1z'' = None
   \<and> (\<forall>c. map_of (playerSessions (snd (removePlayerFromSession ariaRegistry ''sock_aria'' 3000)))
        c \<noteq> Some ''session_1000_k3x9q2m1z'')
   \<and> (\<forall>code. map_of (hostCodes (snd (removePlayerFromSession ariaRegistry ''sock_aria'' 3000)))
        code \<noteq> Some ''session_1000_k3x9q2m1z'')"
    by blast
  with reachable_ariaRegistry m1 m2 p show ?thesis by blast
qed

section \<open>Join-codes are matched exactly\<close>

text \<open>
  Claim C8 says that join-codes are case-insensitive. \<open>joinSession\<close> looks the code up as
  it is given: the session of Aria has the code \<open>X0L1C2\<close>, and joining with \<open>x0l1c2\<close> is
  rejected as an unknown code.
\<close>

theorem joinSession_lower_case_counterexample:
  "map_of (hostCodes ariaRegistry) ''X0L1C2'' = Some ''session_1000_k3x9q2m1z''
   \<and> joinSession ariaRegistry ''sock_bram'' ''x0l1c2'' ''Bram'' 2000 ''ab12c''
        = (JoinError ''Invalid session code'', ariaRegistry)"
  by (simp add: ariaRegistry_eq joinSession_def)

text \<open>
  Claim C8 as amended. Join-codes are matched exactly, case included: in every reachable
  registry a code that contains a lower-case letter is rejected with
  \<open>Invalid session code\<close> and the registry is unchanged, and a code that is not rejected
  as unknown is a registered code, written in the letters \<open>A\<close> to \<open>Z\<close> and the digits.
\<close>

theorem joinSession_exact_code:
  assumes "reachable st" and "ch \<in> set code" "ch \<in> set lowerCaseLetters"
  shows "joinSession st sock code nm now r = (JoinError ''Invalid session code'', st)
       \<and> (\<forall>jres st'. joinSession st sock code' nm now r = (jres, st') \<longrightarrow> jres \<noteq> JoinError ''Invalid session code''
             \<longrightarrow> map_of (hostCodes st) code' \<noteq> None \<and> set code' \<subseteq> set chars)"
proof -
  have "map_of (hostCodes st) code = None"
  proof (cases "map_of (hostCodes st) code")
    case (Some sid)
    from inv_codeD[OF reachable_inv[OF assms(1)] Some] have "set code \<subseteq> set chars" by simp
    with assms(2,3) chars_not_lowerCase show ?thesis by blast
  qed simp
  then have a: "joinSession st sock code nm now r = (JoinError ''Invalid session code'', st)"
    by (simp add: joinSession_def)
  have b: "map_of (hostCodes st) code' \<noteq> None \<and> set code' \<subseteq> set chars"
    if "joinSession st sock code' nm now r = (jres, st')" "jres \<noteq> JoinError ''Invalid session code''"
    for jres st'
  proof (cases "map_of (hostCodes st) code'")
    case None
    with that show ?thesis by (simp add: joinSession_def)
  next
    case (Some sid)
    from inv_codeD[OF reachable_inv[OF assms(1)] Some] Some show ?thesis by simp
  qed
  from a b show ?thesis by blast
qed

theorem joinSession_exact_code_witness:
  "reachable ariaRegistry \<and> CHR ''x'' \<in> set ''x0l1c2'' \<and> CHR ''x'' \<in> set lowerCaseLetters
   \<and> joinSession ariaRegistry ''sock_bram'' ''x0l1c2'' ''Bram'' 2000 ''ab12c''
        = (JoinError ''Invalid session code'', ariaRegistry)
   \<and> fst (joinSession ariaRegistry ''sock_bram'' ''X0L1C2'' ''Bram'' 2000 ''ab12c'')
        \<noteq> JoinError ''Invalid session code''
   \<and> map_of (hostCodes ariaRegistry) ''X0L1C2'' \<noteq> None \<and> set ''X0L1C2'' \<subseteq> set chars"
proof -
  have x: "CHR ''x'' \<in> set ''x0l1c2''" "CHR ''x'' \<in> set lowerCaseLetters"
    by (simp_all add: lowerCaseLetters_def)
  note t = joinSession_exact_code[OF reachable_ariaRegistry x,
      of "''sock_bram''" "''Bram''" 2000 "''ab12c''" "''X0L1C2''"]
  have ok: "fst (joinSession ariaRegistry ''sock_bram'' ''X0L1C2'' ''Bram'' 2000 ''ab12c'')
        \<noteq> JoinError ''Invalid session code''"
    by (simp add: ariaRegistry_eq joinSession_def Let_def)
  from t ok have "map_of (hostCodes ariaRegistry) ''X0L1C2'' \<noteq> None \<and> set ''X0L1C2'' \<subseteq> set chars"
    by (metis prod.collapse)
  with t x ok reachable_ariaRegistry show ?thesis by blast
qed

section \<open>Two harvests of the last unit\<close>

text \<open>
  Claim C1. For every world state and every resource in it with \<open>remainingUses = 1\<close> that
  is not respawning, two harvest calls for that resource, by any two players and run one
  after the other, give one accepted result and then one rejection with
  \<open>Resource is depleted\<close>; afterwards the resource has \<open>remainingUses = 0\<close>.
\<close>

theorem contested_last_unit:
  assumes ws: "map_of (worldStates gws) sid = Some ws" and r: "map_of (resources ws) rid = Some r"
    and one: "remainingUses r = 1" and nr: "\<not> isRespawning r"
  shows "\<exists>item gws1 gws2 ws2 r2.
           harvestResource gws sid rid p1 t1 = (Harvested item, gws1)
         \<and> harvestResource gws1 sid rid p2 t2 = (HarvestRejected ''Resource is depleted'', gws2)
         \<and> map_of (worldStates gws2) sid = Some ws2 \<and> map_of (resources ws2) rid = Some r2
         \<and> remainingUses r2 = 0"
proof -
  let ?r2 = "r\<lparr>remainingUses := 0, lastHarvestedTime := t1, harvestedBy := p1,
                  isRespawning := True\<rparr>"
  let ?ws2 = "ws\<lparr>resources := AList.update rid ?r2 (resources ws),
            eventQueue := eventQueue ws @
              [\<lparr>event_id = ''respawn_'' @ rid, event_type = resource_respawn,
                scheduledTime = jsPlus (of_int t1)
                  (jsDivide (respawnTime r)
                     (of_int (playerCount ws) * RESOURCE_RESPAWN_MULTIPLIER)),
                event_data = RespawnData rid, processed = False\<rparr>]\<rparr>"
  let ?g1 = "gws\<lparr>worldStates := AList.update sid ?ws2 (worldStates gws)\<rparr>"
  have h1: "harvestResource gws sid rid p1 t1 = (Harvested (getResourceItem (res_type r)), ?g1)"
    by (rule harvest_last_unit[OF ws r one nr])
  have w: "map_of (worldStates ?g1) sid = Some ?ws2" by (simp add: update_conv')
  have rr: "map_of (resources ?ws2) rid = Some ?r2" by (simp add: update_conv')
  have h2: "harvestResource ?g1 sid rid p2 t2 = (HarvestRejected ''Resource is depleted'', ?g1)"
    by (rule harvest_depleted[OF w rr]) simp
  from h1 h2 w rr show ?thesis by (intro exI[of _ "getResourceItem (res_type r)"] exI[of _ ?g1]
       exI[of _ ?ws2] exI[of _ ?r2]) simp
qed

theorem contested_last_unit_witness:
  "map_of (worldStates ariaWorld) ''session_1000_k3x9q2m1z'' = Some ariaWorldState
   \<and> map_of (resources ariaWorldState) ''resource_session_1000_k3x9q2m1z_0_0_1'' = Some herbR2
   \<and> remainingUses herbR2 = 1 \<and> \<not> isRespawning herbR2
   \<and> (\<exists>item gws1 gws2 ws2 r2.
         harvestResource ariaWorld ''session_1000_k3x9q2m1z''
            ''resource_session_1000_k3x9q2m1z_0_0_1'' (Some ''sock_aria'') 3000
           = (Harvested item, gws1)
       \<and> harvestResource gws1 ''session_1000_k3x9q2m1z''
            ''resource_session_1000_k3x9q2m1z_0_0_1'' (Some ''sock_bram'') 3001
           = (HarvestRejected ''Resource is depleted'', gws2)
       \<and> map_of (worldStates gws2) ''session_1000_k3x9q2m1z'' = Some ws2
       \<and> map_of (resources ws2) ''resource_session_1000_k3x9q2m1z_0_0_1'' = Some r2
       \<and> remainingUses r2 = 0)"
proof -
  have one: "remainingUses herbR2 = 1" and nr: "\<not> isRespawning herbR2"
    by (simp_all add: herbR2_def)
  from contested_last_unit[OF ariaWorld_lookup(1) ariaWorld_lookup(3) one nr,
      of "Some ''sock_aria''" 3000 "Some ''sock_bram''" 3001]
    ariaWorld_lookup one nr
  show ?thesis by blast
qed

section \<open>The fourth harvest of a three-use resource\<close>

text \<open>
  Claim C6 says that, after Aria has created the session, Bram has joined and Aria has
  harvested the three-use resource three times, Bram's fourth attempt is rejected with
  the reason "respawning". The depletion check comes first in \<open>harvestResource\<close>, so the
  reason he gets is another one.
\<close>

theorem scenario_fourth_harvest_counterexample:
  "getPlayerSession ariaBramRegistry ''sock_bram'' = Some ariaBramSession
   \<and> session_id ariaBramSession = ''session_1000_k3x9q2m1z''
   \<and> fst (harvestResource threeHarvests ''session_1000_k3x9q2m1z''
          ''resource_session_1000_k3x9q2m1z_0_0_0'' (Some ''sock_bram'') 6000)
       \<noteq> HarvestRejected ''Resource is respawning''"
  by (simp add: getPlayerSession_ariaBram threeHarvests_depleted)

text \<open>
  Claim C6 as amended. For every resource with three uses left that is not respawning,
  three harvests in a row are accepted, the resource then has no uses left and is
  respawning, and a fourth attempt, by any player, is rejected with
  \<open>Resource is depleted\<close> and changes nothing.
\<close>

theorem fourth_harvest_rejected_as_depleted:
  assumes "map_of (worldStates gws) sid = Some ws" and "map_of (resources ws) rid = Some r"
    and "remainingUses r = 3" and "\<not> isRespawning r"
  shows "\<exists>i1 g1 i2 g2 i3 g3 ws3 r3.
           harvestResource gws sid rid p t1 = (Harvested i1, g1)
         \<and> harvestResource g1 sid rid p t2 = (Harvested i2, g2)
         \<and> harvestResource g2 sid rid p t3 = (Harvested i3, g3)
         \<and> map_of (worldStates g3) sid = Some ws3 \<and> map_of (resources ws3) rid = Some r3
         \<and> remainingUses r3 = 0 \<and> isRespawning r3
         \<and> harvestResource g3 sid rid q t4 = (HarvestRejected ''Resource is depleted'', g3)"
  using assms by (rule three_harvests_then_depleted)

theorem fourth_harvest_rejected_as_depleted_witness:
  "map_of (worldStates ariaWorld) ''session_1000_k3x9q2m1z'' = Some ariaWorldState
   \<and> map_of (resources ariaWorldState) ''resource_session_1000_k3x9q2m1z_0_0_0'' = Some woodR1
   \<and> remainingUses woodR1 = 3 \<and> \<not> isRespawning woodR1
   \<and> (\<exists>ws3 r3. map_of (worldStates threeHarvests) ''session_1000_k3x9q2m1z'' = Some ws3
         \<and> map_of (resources ws3) ''resource_session_1000_k3x9q2m1z_0_0_0'' = Some r3
         \<and> remainingUses r3 = 0 \<and> isRespawning r3)
   \<and> harvestResource threeHarvests ''session_1000_k3x9q2m1z''
        ''resource_session_1000_k3x9q2m1z_0_0_0'' (Some ''sock_bram'') 6000
        = (HarvestRejected ''Resource is depleted'', threeHarvests)"
proof -
  have three: "remainingUses woodR1 = 3" and nr: "\<not> isRespawning woodR1"
    by (simp_all add: woodR1_def)
  from fourth_harvest_rejected_as_depleted[OF ariaWorld_lookup(1) ariaWorld_lookup(2) three nr,
      of "Some ''sock_aria''" 3000 4000 5000 "Some ''sock_bram''" 6000]
  have "(\<exists>ws3 r3. map_of (worldStates threeHarvests) ''session_1000_k3x9q2m1z'' = Some ws3
         \<and> map_of (resources ws3) ''resource_session_1000_k3x9q2m1z_0_0_0'' = Some r3
         \<and> remainingUses r3 = 0 \<and> isRespawning r3)
   \<and> harvestResource threeHarvests ''session_1000_k3x9q2m1z''
        ''resource_session_1000_k3x9q2m1z_0_0_0'' (Some ''sock_bram'') 6000
        = (HarvestRejected ''Resource is depleted'', threeHarvests)"
    unfolding threeHarvests_def by force
  with ariaWorld_lookup three nr show ?thesis by blast
qed

section \<open>Defeating an enemy that is already dead\<close>

text \<open>
  Claim C7 says that a second defeat of the same enemy is a no-op and emits no second
  \<open>enemy_defeated\<close> event. \<open>removeEnemy\<close> does not test \<open>isAlive\<close> and the handler does not
  look at its result: after Aria has defeated the goblin, Bram's message for the same
  goblin is broadcast to the room and a second removal is scheduled.
\<close>

theorem duplicate_defeat_counterexample:
  "fst firstDefeat =
     \<lparr>worldStates = [(''session_1000_k3x9q2m1z'',
          ariaWorldState\<lparr>enemies :=
            [(''enemy_session_1000_k3x9q2m1z_2500_q1w2e3r4t'', deadGoblin)]\<rparr>)],
       removalTimers = [(37000, ''session_1000_k3x9q2m1z'',
                         ''enemy_session_1000_k3x9q2m1z_2500_q1w2e3r4t'')]\<rparr>
   \<and> \<not> isAlive deadGoblin \<and> health deadGoblin = 0
   \<and> secondDefeat =
     (\<lparr>worldStates = [(''session_1000_k3x9q2m1z'',
          ariaWorldState\<lparr>enemies :=
            [(''enemy_session_1000_k3x9q2m1z_2500_q1w2e3r4t'', deadGoblin)]\<rparr>)],
       removalTimers = [(37000, ''session_1000_k3x9q2m1z'',
                         ''enemy_session_1000_k3x9q2m1z_2500_q1w2e3r4t''),
                        (37100, ''session_1000_k3x9q2m1z'',
                         ''enemy_session_1000_k3x9q2m1z_2500_q1w2e3r4t'')]\<rparr>,
      [\<lparr>room = ''session_1000_k3x9q2m1z'', sender = ''sock_bram'',
        message = EnemyDefeated ''enemy_session_1000_k3x9q2m1z_2500_q1w2e3r4t'' ''sock_bram''
                    (JNum 50) (JArr []) 7100\<rparr>])"
  by (simp add: secondDefeat_def firstDefeat_eq deadGoblin_dead on_enemy_defeated_def
        getPlayerSession_ariaBram removeEnemy_def Let_def)

text \<open>
  Claim C7 as amended. For an enemy with \<open>isAlive = false\<close> and \<open>health = 0\<close>,
  \<open>removeEnemy\<close> returns \<open>true\<close> and leaves every world state as it was, the enemy's
  record included, but schedules one more removal; the \<open>enemy_defeated\<close> handler
  broadcasts the event to the room again.
\<close>

theorem defeating_dead_enemy_repeats:
  assumes "getPlayerSession reg sock = Some session"
    and "map_of (worldStates gws) (session_id session) = Some ws"
    and "map_of (enemies ws) eid = Some e" and "\<not> isAlive e" and "health e = 0"
  shows "removeEnemy gws (session_id session) eid now =
           (True, gws\<lparr>removalTimers := removalTimers gws
                         @ [(now + 30000, session_id session, eid)]\<rparr>)
       \<and> on_enemy_defeated reg gws sock eid xp loot now =
           (gws\<lparr>removalTimers := removalTimers gws @ [(now + 30000, session_id session, eid)]\<rparr>,
            [\<lparr>room = session_id session, sender = sock,
              message = EnemyDefeated eid sock xp loot now\<rparr>])"
  using assms removeEnemy_dead[OF assms(2,3,4,5), of now]
  by (simp add: on_enemy_defeated_def)

theorem defeating_dead_enemy_repeats_witness:
  "getPlayerSession ariaBramRegistry ''sock_bram'' = Some ariaBramSession
   \<and> map_of (worldStates (fst firstDefeat)) (session_id ariaBramSession)
        = Some (ariaWorldState\<lparr>enemies :=
            [(''enemy_session_1000_k3x9q2m1z_2500_q1w2e3r4t'', deadGoblin)]\<rparr>)
   \<and> map_of (enemies (ariaWorldState\<lparr>enemies :=
            [(''enemy_session_1000_k3x9q2m1z_2500_q1w2e3r4t'', deadGoblin)]\<rparr>))
        ''enemy_session_1000_k3x9q2m1z_2500_q1w2e3r4t'' = Some deadGoblin
   \<and> \<not> isAlive deadGoblin \<and> health deadGoblin = 0
   \<and> fst (removeEnemy (fst firstDefeat) (session_id ariaBramSession)
            ''enemy_session_1000_k3x9q2m1z_2500_q1w2e3r4t'' 7100)
   \<and> snd (on_enemy_defeated ariaBramRegistry (fst firstDefeat) ''sock_bram''
            ''enemy_session_1000_k3x9q2m1z_2500_q1w2e3r4t'' (JNum 50) (JArr []) 7100)
       = [\<lparr>room = session_id ariaBramSession, sender = ''sock_bram'',
           message = EnemyDefeated ''enemy_session_1000_k3x9q2m1z_2500_q1w2e3r4t'' ''sock_bram''
                       (JNum 50) (JArr []) 7100\<rparr>]"
proof -
  have w: "map_of (worldStates (fst firstDefeat)) (session_id ariaBramSession)
        = Some (ariaWorldState\<lparr>enemies :=
            [(''enemy_session_1000_k3x9q2m1z_2500_q1w2e3r4t'', deadGoblin)]\<rparr>)"
    by (simp add: firstDefeat_eq getPlayerSession_ariaBram)
  have e: "map_of (enemies (ariaWorldState\<lparr>enemies :=
            [(''enemy_session_1000_k3x9q2m1z_2500_q1w2e3r4t'', deadGoblin)]\<rparr>))
        ''enemy_session_1000_k3x9q2m1z_2500_q1w2e3r4t'' = Some deadGoblin"
    by simp
  from defeating_dead_enemy_repeats[OF getPlayerSession_ariaBram(2) w e deadGoblin_dead,
      of 7100 "JNum 50" "JArr []"]
  have "fst (removeEnemy (fst firstDefeat) (session_id ariaBramSession)
            ''enemy_session_1000_k3x9q2m1z_2500_q1w2e3r4t'' 7100)
   \<and> snd (on_enemy_defeated ariaBramRegistry (fst firstDefeat) ''sock_bram''
            ''enemy_session_1000_k3x9q2m1z_2500_q1w2e3r4t'' (JNum 50) (JArr []) 7100)
       = [\<lparr>room = session_id ariaBramSession, sender = ''sock_bram'',
           message = EnemyDefeated ''enemy_session_1000_k3x9q2m1z_2500_q1w2e3r4t'' ''sock_bram''
                       (JNum 50) (JArr []) 7100\<rparr>]"
    by simp
  with getPlayerSession_ariaBram(2) w e deadGoblin_dead show ?thesis by blast
qed

section \<open>The payload of a seasonal change\<close>

text \<open>
  Claim C9. \<open>updateGameTime\<close> either leaves the event queue as it is (the season did not
  change) or appends one \<open>seasonal_change\<close> event whose \<open>previousSeason\<close> equals its
  \<open>newSeason\<close>, both being the new season, which differs from the season that was left.
\<close>

theorem seasonal_event_previous_is_new:
  assumes "map_of (worldStates gws) sid = Some ws"
  shows "\<exists>ws'. map_of (worldStates (updateGameTime gws sid d now)) sid = Some ws'
           \<and> (if seasonAt (gameTime ws + d) (dayLength ws) = season ws
                then eventQueue ws' = eventQueue ws
                else \<exists>n. n = seasonAt (gameTime ws + d) (dayLength ws) \<and> n \<noteq> season ws
                       \<and> eventQueue ws' = eventQueue ws @
                            [\<lparr>event_id = ''season_'' @ showInt now, event_type = seasonal_change,
                              scheduledTime = Num (of_int now), event_data = SeasonData n n,
                              processed = False\<rparr>])"
  using assms by (simp add: updateGameTime_def Let_def changeSeason_def update_conv')

theorem seasonal_event_previous_is_new_witness:
  "map_of (worldStates ariaWorld) ''session_1000_k3x9q2m1z'' = Some ariaWorldState
   \<and> season ariaWorldState = Some spring
   \<and> seasonAt (gameTime ariaWorldState + 36000000) (dayLength ariaWorldState) = Some summer
   \<and> (\<exists>ws'. map_of (worldStates (updateGameTime ariaWorld ''session_1000_k3x9q2m1z'' 36000000 9000))
                ''session_1000_k3x9q2m1z'' = Some ws'
          \<and> eventQueue ws' = eventQueue ariaWorldState @
               [\<lparr>event_id = ''season_'' @ showInt 9000, event_type = seasonal_change,
                 scheduledTime = Num 9000, event_data = SeasonData (Some summer) (Some summer),
                 processed = False\<rparr>])"
proof -
  have s: "season ariaWorldState = Some spring"
    and n: "seasonAt (gameTime ariaWorldState + 36000000) (dayLength ariaWorldState) = Some summer"
    by (simp_all add: ariaWorldState_def seasonAt_def Let_def seasons_def)
  from seasonal_event_previous_is_new[OF ariaWorld_lookup(1), of 36000000 9000] s n
  have "\<exists>ws'. map_of (worldStates (updateGameTime ariaWorld ''session_1000_k3x9q2m1z'' 36000000 9000))
                ''session_1000_k3x9q2m1z'' = Some ws'
          \<and> eventQueue ws' = eventQueue ariaWorldState @
               [\<lparr>event_id = ''season_'' @ showInt 9000, event_type = seasonal_change,
                 scheduledTime = Num 9000, event_data = SeasonData (Some summer) (Some summer),
                 processed = False\<rparr>]"
    by simp
  with ariaWorld_lookup(1) s n show ?thesis by blast
qed

section \<open>Depletion and respawn\<close>




section \<open>Creating a session while in another\<close>

text \<open>
  Claim C10. \<open>createSession\<close> does not look at the socket map: for a connection that is a
  player of session \<open>a\<close>, below the session cap and with draws that reach an unused
  host code, it succeeds, maps the connection to the new session, and leaves session
  \<open>a\<close>, with the connection's player in it, as it was.
\<close>

theorem createSession_ignores_membership:
  assumes mapped: "map_of (playerSessions st) sock = Some a"
    and sess: "map_of (sessions st) a = Some sa"
    and member: "p \<in> set (players sa)" "socketId p = sock"
    and cap: "length (sessions st) < MAX_SESSIONS"
    and draws: "6 * n + 6 \<le> length draws"
       "map_of (hostCodes st) (hostCodeOf (take 6 (drop (6 * n) draws))) = None"
    and other: "generateSessionId now sidRnd \<noteq> a"
  shows "\<exists>session st'. createSession st sock nm now sidRnd draws seed = Some (Some session, st')
           \<and> session_id session = generateSessionId now sidRnd
           \<and> map_of (playerSessions st') sock = Some (generateSessionId now sidRnd)
           \<and> map_of (sessions st') (generateSessionId now sidRnd) = Some session
           \<and> map_of (sessions st') a = Some sa \<and> p \<in> set (players sa)"
proof -
  from generateHostCode_enough[OF draws] obtain code where
    gc: "generateHostCode (hostCodes st) draws = Some code" by blast
  show ?thesis
    using cap gc other sess member
    by (simp add: createSession_def Let_def update_conv')
qed

theorem createSession_ignores_membership_witness:
  "map_of (playerSessions ariaRegistry) ''sock_aria'' = Some ''session_1000_k3x9q2m1z''
   \<and> length (sessions ariaRegistry) < MAX_SESSIONS
   \<and> generateSessionId 3000 ''zzzzzzzzz'' \<noteq> ''session_1000_k3x9q2m1z''
   \<and> (\<exists>session st' sa p.
         createSession ariaRegistry ''sock_aria'' ''Aria'' 3000 ''zzzzzzzzz''
            [23, 26, 11, 27, 2, 28, 0, 0, 0, 0, 0, 0] 7 = Some (Some session, st')
         \<and> map_of (playerSessions st') ''sock_aria'' = Some (generateSessionId 3000 ''zzzzzzzzz'')
         \<and> map_of (sessions st') ''session_1000_k3x9q2m1z'' = Some sa
         \<and> p \<in> set (players sa) \<and> socketId p = ''sock_aria'')"
proof -
  let ?sa = "\<lparr>session_id = ''session_1000_k3x9q2m1z'', hostCode = ''X0L1C2'', hostId = ''sock_aria'',
        hostName = ''Aria'',
        players = [\<lparr>player_id = ''player_1000'', socketId = ''sock_aria'', player_name = ''Aria'',
                    joinedAt = 1000, lastSeen = 1000, position = None, level = 1, isHost = True,
                    inventory = None, stats = None\<rparr>],
        maxPlayers = 8, isPublic = False, createdAt = 1000, lastActivity = 1000,
        worldSeed = 424242,
        gameState = \<lparr>worldTime = 0, gs_season = ''spring'', harvestedResources = [],
                  defeatedEnemies = [], sharedInventory = [], gs_economyState = JObj []\<rparr>\<rparr>"
  let ?p = "\<lparr>player_id = ''player_1000'', socketId = ''sock_aria'', player_name = ''Aria'',
                    joinedAt = 1000, lastSeen = 1000, position = None, level = 1, isHost = True,
                    inventory = None, stats = None\<rparr>"
  have m: "map_of (playerSessions ariaRegistry) ''sock_aria'' = Some ''session_1000_k3x9q2m1z''"
    and s: "map_of (sessions ariaRegistry) ''session_1000_k3x9q2m1z'' = Some ?sa"
    and cap: "length (sessions ariaRegistry) < MAX_SESSIONS"
    by (simp_all add: ariaRegistry_eq MAX_SESSIONS_def)
  have mem: "?p \<in> set (players ?sa)" "socketId ?p = ''sock_aria''" by simp_all
  have hc: "hostCodeOf (take 6 (drop (6 * 1) [23, 26, 11, 27, 2, 28, 0, 0, 0, 0, 0, 0::nat]))
              = ''AAAAAA''"
    by code_simp
  have d: "6 * 1 + 6 \<le> length [23, 26, 11, 27, 2, 28, 0, 0, 0, 0, 0, 0::nat]"
    "map_of (hostCodes ariaRegistry)
       (hostCodeOf (take 6 (drop (6 * 1) [23, 26, 11, 27, 2, 28, 0, 0, 0, 0, 0, 0]))) = None"
    by (simp_all only: hc) (simp_all add: ariaRegistry_eq)
  have o: "generateSessionId 3000 ''zzzzzzzzz'' \<noteq> ''session_1000_k3x9q2m1z''"
    by (simp add: generateSessionId_def showInt_def showNat.simps decimalDigits_def)
  from createSession_ignores_membership[OF m s mem cap d o, of "''Aria''" 7]
  have "\<exists>session st' sa p.
         createSession ariaRegistry ''sock_aria'' ''Aria'' 3000 ''zzzzzzzzz''
            [23, 26, 11, 27, 2, 28, 0, 0, 0, 0, 0, 0] 7 = Some (Some session, st')
         \<and> map_of (playerSessions st') ''sock_aria'' = Some (generateSessionId 3000 ''zzzzzzzzz'')
         \<and> map_of (sessions st') ''session_1000_k3x9q2m1z'' = Some sa
         \<and> p \<in> set (players sa) \<and> socketId p = ''sock_aria''"
    using mem(2) by blast
  with m cap o show ?thesis by blast
qed

end
